theory Spec2Isabelle
  imports Complex_Main "HOL-Library.AList" "HOL-Library.Multiset" "HOL-Library.Log_Nat"
begin

section \<open>Values, exceptions and the shape of a request\<close>

text \<open>
  The handler \<^verbatim>\<open>vibe_recommend\<close> of \<^verbatim>\<open>src/lib/functions/main.py\<close> reads a JSON body
  with \<^verbatim>\<open>request.get_json(silent=True)\<close>. The parsed body is a Python value; the
  datatype below is that value. A \<^verbatim>\<open>dict\<close> is held as the list of its items (keys
  distinct, as in a dict).
\<close>

datatype json =
    JNull
  | JBool bool
  | JInt int
  | JFloat real
  | JStr string
  | JArr "json list"
  | JObj "(string \<times> json) list"

text \<open>Python's truth value of a parsed body or field (\<^verbatim>\<open>x or {}\<close>, \<^verbatim>\<open>not user_id\<close>).\<close>

fun truthy :: "json \<Rightarrow> bool" where
  "truthy JNull = False"
| "truthy (JBool b) = b"
| "truthy (JInt n) = (n \<noteq> 0)"
| "truthy (JFloat x) = (x \<noteq> 0)"
| "truthy (JStr s) = (s \<noteq> [])"
| "truthy (JArr xs) = (xs \<noteq> [])"
| "truthy (JObj kvs) = (kvs \<noteq> [])"

fun type_name :: "json \<Rightarrow> string" where
  "type_name JNull = ''NoneType''"
| "type_name (JBool b) = ''bool''"
| "type_name (JInt n) = ''int''"
| "type_name (JFloat x) = ''float''"
| "type_name (JStr s) = ''str''"
| "type_name (JArr xs) = ''list''"
| "type_name (JObj kvs) = ''dict''"

text \<open>
  Exceptions carry the text that \<^verbatim>\<open>str(e)\<close> gives. \<open>AttributeError\<close> and
  \<open>IndexError\<close> are raised by the handler's own expressions; \<open>CollaboratorError\<close>
  stands for whatever a call of the history store or of the catalog service raises.
\<close>

datatype exn =
    AttributeError string
  | IndexError string
  | CollaboratorError string

fun str_exn :: "exn \<Rightarrow> string" where
  "str_exn (AttributeError m) = m"
| "str_exn (IndexError m) = m"
| "str_exn (CollaboratorError m) = m"

definition quoted :: "string \<Rightarrow> string" where
  "quoted s = [CHR 0x27] @ s @ [CHR 0x27]"

definition no_attribute :: "json \<Rightarrow> string \<Rightarrow> exn" where
  "no_attribute v attr =
     AttributeError (quoted (type_name v) @ '' object has no attribute '' @ quoted attr)"

definition index_out_of_range :: exn where
  "index_out_of_range = IndexError ''list index out of range''"

record request =
  http_method :: string
  get_json :: "json option"

text \<open>
  \<^verbatim>\<open>data = request.get_json(silent=True) or {}\<close>: \<open>get_json\<close> is \<open>None\<close> for a
  missing or unparsable body; a falsy parsed body is replaced by the empty dict.
\<close>

definition get_data :: "request \<Rightarrow> json" where
  "get_data req =
     (case get_json req of
        None \<Rightarrow> JObj []
      | Some j \<Rightarrow> if truthy j then j else JObj [])"

text \<open>\<^verbatim>\<open>data.get(key, default)\<close>: only a dict has the attribute \<^verbatim>\<open>get\<close>.\<close>

definition dict_get :: "json \<Rightarrow> string \<Rightarrow> json \<Rightarrow> exn + json" where
  "dict_get d key dflt =
     (case d of
        JObj kvs \<Rightarrow> Inr (case map_of kvs key of None \<Rightarrow> dflt | Some v \<Rightarrow> v)
      | _ \<Rightarrow> Inl (no_attribute d ''get''))"

section \<open>Tracks, audio features and responses\<close>

record features =
  energy :: real
  valence :: real
  danceability :: real

text \<open>
  A track of \<^verbatim>\<open>recs['tracks']\<close>: \<open>artists\<close> holds the artists' names and
  \<open>images\<close> the urls of \<^verbatim>\<open>t['album']['images']\<close>, in order.
\<close>

record track =
  tid :: string
  tname :: string
  artists :: "string list"
  images :: "string list"
  turi :: string
  tpreview_url :: "string option"

record scored_track =
  sid :: string
  sname :: string
  artist :: string
  image :: string
  uri :: string
  preview_url :: "string option"
  score :: real

record history_doc =
  track_id :: "string option"

datatype body =
    NoContent
  | Error string
  | Recommendations "scored_track list"

type_synonym headers = "(string \<times> string) list"

type_synonym response = "body \<times> nat \<times> headers"

definition cors :: headers where
  "cors = [(''Access-Control-Allow-Origin'', ''*'')]"

definition preflight :: headers where
  "preflight =
     [(''Access-Control-Allow-Origin'', ''*''),
      (''Access-Control-Allow-Methods'', ''POST''),
      (''Access-Control-Allow-Headers'', ''Content-Type'')]"

section \<open>The recommendation cache and its sweeper\<close>

text \<open>
  \<^verbatim>\<open>recommendation_cache\<close> maps a key to \<^verbatim>\<open>{'data': ..., 'timestamp': ...}\<close>.
  Times are \<^verbatim>\<open>datetime\<close> values, counted here in microseconds (the resolution of
  \<^verbatim>\<open>datetime\<close>). The dict is the list of its items in insertion order.
\<close>

record cache_entry =
  data :: body
  timestamp :: int

type_synonym cache = "(string \<times> cache_entry) list"

definition ten_minutes :: int where
  "ten_minutes = 10 * 60 * 1000000"

text \<open>
  \<^verbatim>\<open>clean_old_cache\<close>: the first loop collects the keys whose entry is older than ten
  minutes, the second deletes them.
\<close>

definition clean_old_cache :: "int \<Rightarrow> cache \<Rightarrow> cache" where
  "clean_old_cache now c =
     (let to_delete = map fst (filter (\<lambda>(key, v). now - timestamp v > ten_minutes) c)
      in fold AList.delete to_delete c)"

section \<open>Mood targets\<close>

definition mood_map :: "(string \<times> real list) list" where
  "mood_map =
     [(''happy'', [0.8, 0.9, 0.8]),
      (''sad'', [0.2, 0.3, 0.3]),
      (''energetic'', [0.9, 0.6, 0.9]),
      (''chill'', [0.4, 0.5, 0.4]),
      (''focus'', [0.6, 0.4, 0.5]),
      (''party'', [0.9, 0.7, 0.95])]"

text \<open>\<^verbatim>\<open>target = np.array(mood_map.get(mood, [0.5, 0.5, 0.5]))\<close>\<close>

definition mood_target :: "string \<Rightarrow> real list" where
  "mood_target mood =
     (case map_of mood_map mood of
        None \<Rightarrow> [0.5, 0.5, 0.5]
      | Some v \<Rightarrow> v)"

section \<open>The collaborators of one request\<close>

text \<open>
  Everything the handler reads from outside during one request. The history store and
  the catalog service may answer or raise; \<open>Inl\<close> is the exception. The catalog's
  \<^verbatim>\<open>audio_features\<close> is called twice (for the seed tracks, then for the candidates)
  and may answer differently each time, so its first argument is the number of earlier
  calls of it in this request. \<open>clock\<close> is \<^verbatim>\<open>datetime.now()\<close>, by the number of
  earlier readings.

  Four library functions are taken as given as well: \<open>str_lower\<close> is
  \<^verbatim>\<open>str.lower\<close>, \<open>str_of\<close> is the text an f-string gives a value that is not a
  string, \<open>np_mean w rows\<close> is numpy's \<^verbatim>\<open>np.mean(rows, axis=0)\<close>, and
  \<open>cosine_similarity w u v\<close> is the entry \<^verbatim>\<open>[0][0]\<close> of sklearn's
  \<^verbatim>\<open>cosine_similarity([u], [v])\<close>. A float is held as the real number it stands
  for; the two numeric functions give finite floats.
\<close>

record world =
  str_lower :: "string \<Rightarrow> string"
  str_of :: "json \<Rightarrow> string"
  np_mean :: "real list list \<Rightarrow> real list"
  cosine_similarity :: "real list \<Rightarrow> real list \<Rightarrow> real"
  clock :: "nat \<Rightarrow> int"
  db_history :: "json \<Rightarrow> exn + history_doc list"
  sp_search :: "string \<Rightarrow> exn + string list"
  sp_audio_features :: "nat \<Rightarrow> string list \<Rightarrow> exn + features option list"
  sp_recommendations :: "string list \<Rightarrow> exn + track list"

section \<open>Vectors and scores\<close>

text \<open>
  A Python float is an IEEE 754 double. It is held as the real number it stands for, and
  an operation on floats gives the double nearest to the exact result, a tie going to
  the neighbour with an even last bit. \<open>binade x\<close> is the exponent \<open>e\<close> with
  \<open>2\<^sup>e \<le> \<bar>x\<bar> < 2\<^sup>e\<^sup>+\<^sup>1\<close>; a double has 53 significant bits and no exponent below
  \<open>-1022\<close>, so the doubles around \<open>x\<close> are \<open>2\<^sup>e\<^sup>-\<^sup>5\<^sup>2\<close> apart. Infinities and NaN are not
  held: the similarities are finite and at most about one in size, so no operation of
  the scoring overflows.
\<close>

definition round_half_even :: "real \<Rightarrow> int" where
  "round_half_even y =
     (let f = \<lfloor>y\<rfloor>; d = y - of_int f
      in if d < 1 / 2 then f
         else if d > 1 / 2 then f + 1
         else if even f then f else f + 1)"

definition binade :: "real \<Rightarrow> int" where
  "binade x =
     (if 1 \<le> \<bar>x\<bar> then int (floorlog 2 (nat \<lfloor>\<bar>x\<bar>\<rfloor>)) - 1
      else - int (floorlog 2 (nat (\<lceil>1 / \<bar>x\<bar>\<rceil> - 1))))"

definition double_of :: "real \<Rightarrow> real" where
  "double_of x =
     (if x = 0 then 0
      else (let q = 2 powi (max (binade x) (- 1022) - 52)
            in of_int (round_half_even (x / q)) * q))"

text \<open>
  \<^verbatim>\<open>round(x, ndigits)\<close> on a float: CPython rounds the exact value of \<open>x\<close> to
  \<open>ndigits\<close> decimal digits, a tie going to the even digit, and gives the double
  nearest to that decimal number.
\<close>

definition py_round :: "real \<Rightarrow> nat \<Rightarrow> real" where
  "py_round x ndigits =
     double_of (of_int (round_half_even (x * 10 ^ ndigits)) / 10 ^ ndigits)"

definition feature_vec :: "features \<Rightarrow> real list" where
  "feature_vec f = [energy f, valence f, danceability f]"

text \<open>
  The weighted score of lines 144-147, before rounding: two float products and a float
  sum. The literals \<^verbatim>\<open>0.6\<close> and \<^verbatim>\<open>0.4\<close> are the doubles nearest to these numbers.
\<close>

definition weighted_score ::
  "world \<Rightarrow> real list \<Rightarrow> real list \<Rightarrow> real list \<Rightarrow> real" where
  "weighted_score w user_vec target vec =
     double_of
       (double_of (cosine_similarity w user_vec vec * double_of 0.6) +
        double_of (cosine_similarity w target vec * double_of 0.4))"

text \<open>
  The dict appended to \<^verbatim>\<open>scored\<close> for a track \<open>t\<close> with features \<open>f\<close>.
  \<^verbatim>\<open>t['artists'][0]\<close> raises \<open>IndexError\<close> on a track without artists; the image
  is guarded by \<^verbatim>\<open>if t['album']['images'] else ''\<close>.
\<close>

definition scored_entry ::
  "world \<Rightarrow> real list \<Rightarrow> real list \<Rightarrow> track \<Rightarrow> features \<Rightarrow> exn + scored_track" where
  "scored_entry w user_vec target t f =
     (let vec = feature_vec f;
          s = weighted_score w user_vec target vec
      in case artists t of
           [] \<Rightarrow> Inl index_out_of_range
         | a # _ \<Rightarrow>
             Inr \<lparr>sid = tid t, sname = tname t, artist = a,
                  image = (case images t of [] \<Rightarrow> [] | u # _ \<Rightarrow> u),
                  uri = turi t, preview_url = tpreview_url t,
                  score = py_round s 3\<rparr>)"

text \<open>
  The scoring loop \<^verbatim>\<open>for i, t in enumerate(recs['tracks'])\<close>: \<open>i\<close> is the index of
  the next track, \<open>scored\<close> the list built so far. \<^verbatim>\<open>rec_features[i]\<close> raises
  \<open>IndexError\<close> when the feature list is shorter than the track list; a null entry
  is skipped by \<^verbatim>\<open>continue\<close>.
\<close>

fun score_loop ::
  "world \<Rightarrow> real list \<Rightarrow> real list \<Rightarrow> features option list \<Rightarrow> nat \<Rightarrow> track list \<Rightarrow>
   scored_track list \<Rightarrow> exn + scored_track list" where
  "score_loop w user_vec target rec_features i [] scored = Inr scored"
| "score_loop w user_vec target rec_features i (t # ts) scored =
     (if length rec_features \<le> i then Inl index_out_of_range
      else case rec_features ! i of
             None \<Rightarrow> score_loop w user_vec target rec_features (Suc i) ts scored
           | Some f \<Rightarrow>
               (case scored_entry w user_vec target t f of
                  Inl e \<Rightarrow> Inl e
                | Inr s \<Rightarrow>
                    score_loop w user_vec target rec_features (Suc i) ts (scored @ [s])))"

text \<open>
  \<^verbatim>\<open>sorted(scored, key=lambda x: x['score'], reverse=True)\<close>. CPython sorts with
  \<^verbatim>\<open>reverse=True\<close> by reversing the list, sorting it stably in ascending order and
  reversing the result, which keeps equal keys in their original order.
\<close>

definition sorted_reverse :: "('a \<Rightarrow> real) \<Rightarrow> 'a list \<Rightarrow> 'a list" where
  "sorted_reverse key xs = rev (sort_key key (rev xs))"

definition top10 :: "scored_track list \<Rightarrow> scored_track list" where
  "top10 scored = take 10 (sorted_reverse score scored)"

section \<open>Calls and outcomes\<close>

datatype call =
    History json
  | Search string
  | AudioFeatures "string list"
  | GetRecommendations "string list"

text \<open>
  What a run of the handler leaves behind: the response tuple, the cache, and the calls
  it made to the collaborators, in order.
\<close>

record outcome =
  response :: response
  cache_after :: cache
  calls :: "call list"

section \<open>The handler\<close>

text \<open>
  The top-level \<^verbatim>\<open>except Exception as e\<close> (lines 174-178): an exception that no
  inner \<^verbatim>\<open>try\<close> catches ends the request with status 500 and \<^verbatim>\<open>str(e)\<close>.
\<close>

definition unexpected :: "exn \<Rightarrow> cache \<Rightarrow> call list \<Rightarrow> outcome" where
  "unexpected e c cs =
     \<lparr>response = (Error (str_exn e), 500, cors), cache_after = c, calls = cs\<rparr>"

text \<open>\<^verbatim>\<open>.lower()\<close> on the value of \<^verbatim>\<open>data.get('mood', 'chill')\<close>.\<close>

definition lower :: "world \<Rightarrow> json \<Rightarrow> exn + string" where
  "lower w v =
     (case v of
        JStr s \<Rightarrow> Inr (str_lower w s)
      | _ \<Rightarrow> Inl (no_attribute v ''lower''))"

text \<open>\<^verbatim>\<open>cache_key = f"{user_id}_{mood}"\<close>\<close>

definition cache_key :: "world \<Rightarrow> json \<Rightarrow> string \<Rightarrow> string" where
  "cache_key w user_id mood =
     (case user_id of JStr s \<Rightarrow> s | _ \<Rightarrow> str_of w user_id) @ ''_'' @ mood"

text \<open>\<^verbatim>\<open>[h.get('track_id') for h in history if h.get('track_id')]\<close>\<close>

definition history_track_ids :: "history_doc list \<Rightarrow> string list" where
  "history_track_ids history =
     List.map_filter
       (\<lambda>h. case track_id h of
              None \<Rightarrow> None
            | Some s \<Rightarrow> if s \<noteq> [] then Some s else None)
       history"

text \<open>\<^verbatim>\<open>[f for f in sp.audio_features(track_ids) if f]\<close>\<close>

definition non_null :: "'a option list \<Rightarrow> 'a list" where
  "non_null fs = List.map_filter (\<lambda>f. f) fs"

text \<open>
  The handler is one function with early \<^verbatim>\<open>return\<close>s. It is written here as a
  chain of steps, one for each block of the source; a step gives \<open>Inl\<close> of the outcome
  when the handler returns (or an exception reaches the top-level \<^verbatim>\<open>except\<close>) inside
  the block, and \<open>Inr\<close> of the local variables the later blocks read otherwise.
\<close>

text \<open>
  Lines 43-59: the preflight answer, the body's fields and the check of
  \<^verbatim>\<open>user_id\<close>. Both \<^verbatim>\<open>data.get\<close> calls and \<^verbatim>\<open>.lower()\<close> run before the check.
\<close>

definition validate :: "world \<Rightarrow> cache \<Rightarrow> request \<Rightarrow> outcome + (json \<times> string)" where
  "validate w c req =
     (if http_method req = ''OPTIONS'' then
        Inl \<lparr>response = (NoContent, 204, preflight), cache_after = c, calls = []\<rparr>
      else
        (let d = get_data req
         in case dict_get d ''user_id'' JNull of
              Inl e \<Rightarrow> Inl (unexpected e c [])
            | Inr user_id \<Rightarrow>
                (case dict_get d ''mood'' (JStr ''chill'') of
                   Inl e \<Rightarrow> Inl (unexpected e c [])
                 | Inr m \<Rightarrow>
                     (case lower w m of
                        Inl e \<Rightarrow> Inl (unexpected e c [])
                      | Inr mood \<Rightarrow>
                          if \<not> truthy user_id then
                            Inl \<lparr>response = (Error ''user_id required'', 400, cors),
                                 cache_after = c, calls = []\<rparr>
                          else Inr (user_id, mood)))))"

text \<open>Lines 61-66: sweep, then look the key up. A miss gives the swept cache and the key.\<close>

definition check_cache ::
  "world \<Rightarrow> cache \<Rightarrow> request \<Rightarrow> outcome + (cache \<times> string \<times> json \<times> string)" where
  "check_cache w c req =
     (case validate w c req of
        Inl out \<Rightarrow> Inl out
      | Inr (user_id, mood) \<Rightarrow>
          (let c' = clean_old_cache (clock w 0) c;
               key = cache_key w user_id mood
           in case map_of c' key of
                Some entry \<Rightarrow>
                  Inl \<lparr>response = (data entry, 200, cors), cache_after = c', calls = []\<rparr>
              | None \<Rightarrow> Inr (c', key, user_id, mood)))"

text \<open>
  Lines 68-84: the history read (outside every inner \<^verbatim>\<open>try\<close>) and, for an empty
  history, the search by mood. The result holds the seed track ids.
\<close>

definition seed_tracks ::
  "world \<Rightarrow> cache \<Rightarrow> request \<Rightarrow>
   outcome + (cache \<times> call list \<times> string \<times> string \<times> string list)" where
  "seed_tracks w c req =
     (case check_cache w c req of
        Inl out \<Rightarrow> Inl out
      | Inr (c', key, user_id, mood) \<Rightarrow>
          (let cs = [History user_id]
           in case db_history w user_id of
                Inl e \<Rightarrow> Inl (unexpected e c' cs)
              | Inr history \<Rightarrow>
                  (let track_ids = history_track_ids history
                   in if track_ids = [] then
                        (case sp_search w mood of
                           Inl e \<Rightarrow>
                             Inl \<lparr>response = (Error ''Failed to search tracks'', 500, cors),
                                  cache_after = c', calls = cs @ [Search mood]\<rparr>
                         | Inr found \<Rightarrow> Inr (c', cs @ [Search mood], key, mood, found))
                      else Inr (c', cs, key, mood, track_ids))))"

text \<open>
  Lines 86-123: the early answer for no seed tracks, the seeds' audio features, the
  early answer for no features, the user vector, the mood target and the
  recommendation fetch. The result holds the user vector, the target and the candidate
  tracks.
\<close>

definition candidates ::
  "world \<Rightarrow> cache \<Rightarrow> request \<Rightarrow>
   outcome + (cache \<times> call list \<times> string \<times> real list \<times> real list \<times> track list)" where
  "candidates w c req =
     (case seed_tracks w c req of
        Inl out \<Rightarrow> Inl out
      | Inr (c', cs, key, mood, track_ids) \<Rightarrow>
          if track_ids = [] then
            Inl \<lparr>response = (Recommendations [], 200, cors), cache_after = c', calls = cs\<rparr>
          else
            (let cs1 = cs @ [AudioFeatures track_ids]
             in case sp_audio_features w 0 track_ids of
                  Inl e \<Rightarrow>
                    Inl \<lparr>response = (Error ''Failed to get audio features'', 500, cors),
                         cache_after = c', calls = cs1\<rparr>
                | Inr fs \<Rightarrow>
                    (let features = non_null fs
                     in if features = [] then
                          Inl \<lparr>response = (Recommendations [], 200, cors),
                               cache_after = c', calls = cs1\<rparr>
                        else
                          (let user_vec = np_mean w (map feature_vec features);
                               target = mood_target mood;
                               cs2 = cs1 @ [GetRecommendations (take 5 track_ids)]
                           in case sp_recommendations w (take 5 track_ids) of
                                Inl e \<Rightarrow>
                                  Inl \<lparr>response =
                                         (Error ''Failed to get recommendations'', 500, cors),
                                       cache_after = c', calls = cs2\<rparr>
                              | Inr tracks \<Rightarrow>
                                  Inr (c', cs2, key, user_vec, target, tracks)))))"

text \<open>
  Lines 125-135: the candidates' features in one call; an exception gives a list of
  nulls, one for each candidate.
\<close>

definition rec_features :: "world \<Rightarrow> track list \<Rightarrow> features option list" where
  "rec_features w tracks =
     (let rec_ids = map tid tracks
      in case sp_audio_features w 1 rec_ids of
           Inl e \<Rightarrow> replicate (length rec_ids) None
         | Inr fs \<Rightarrow> fs)"

text \<open>Lines 125-172: score, sort, keep ten, store in the cache, answer.\<close>

definition score_and_store ::
  "world \<Rightarrow> cache \<Rightarrow> call list \<Rightarrow> string \<Rightarrow> real list \<Rightarrow> real list \<Rightarrow> track list \<Rightarrow>
   outcome" where
  "score_and_store w c cs key user_vec target tracks =
     (let cs' = cs @ [AudioFeatures (map tid tracks)]
      in case score_loop w user_vec target (rec_features w tracks) 0 tracks [] of
           Inl e \<Rightarrow> unexpected e c cs'
         | Inr scored \<Rightarrow>
             (let result = Recommendations (top10 scored)
              in \<lparr>response = (result, 200, cors),
                   cache_after =
                     AList.update key \<lparr>data = result, timestamp = clock w 1\<rparr> c,
                   calls = cs'\<rparr>))"

text \<open>
  \<^verbatim>\<open>vibe_recommend(request)\<close>, with the module's cache as an argument and in the
  outcome. The output of \<^verbatim>\<open>print\<close> is not modelled.
\<close>

definition vibe_recommend :: "world \<Rightarrow> cache \<Rightarrow> request \<Rightarrow> outcome" where
  "vibe_recommend w c req =
     (case candidates w c req of
        Inl out \<Rightarrow> out
      | Inr (c', cs, key, user_vec, target, tracks) \<Rightarrow>
          score_and_store w c' cs key user_vec target tracks)"

section \<open>The scoring rule as the specification words it\<close>

text \<open>
  The candidates paired with their feature vectors, those with a null entry left out:
  the pairs the specification says are scored.
\<close>

fun with_features :: "'a list \<Rightarrow> 'b option list \<Rightarrow> ('a \<times> 'b) list" where
  "with_features (t # ts) (Some f # fs) = (t, f) # with_features ts fs"
| "with_features (t # ts) (None # fs) = with_features ts fs"
| "with_features ts fs = []"

text \<open>
  The weighted sum the specification gives a candidate, before rounding: 0.6 times the
  similarity to the user vector plus 0.4 times the similarity to the mood target, in
  float arithmetic.
\<close>

definition spec_weighted_sum :: "world \<Rightarrow> real list \<Rightarrow> real list \<Rightarrow> features \<Rightarrow> real" where
  "spec_weighted_sum w user_vector mood_vector f =
     double_of
       (double_of (double_of 0.6 * cosine_similarity w user_vector (feature_vec f)) +
        double_of (double_of 0.4 * cosine_similarity w mood_vector (feature_vec f)))"

section \<open>Example runs\<close>

text \<open>
  A concrete world, request and cache on which the statements below are evaluated. The
  example similarity is one for equal vectors and a half otherwise, and the example
  mean is the mean of each column.
\<close>

definition exact_mean :: "real list list \<Rightarrow> real list" where
  "exact_mean rows =
     map (\<lambda>j. sum_list (map (\<lambda>r. r ! j) rows) / real (length rows))
       [0 ..< length (hd rows)]"

definition example_track :: "string \<Rightarrow> track" where
  "example_track i =
     \<lparr>tid = i, tname = ''song '' @ i, artists = [''band''], images = [],
      turi = ''spotify:track:'' @ i, tpreview_url = None\<rparr>"

definition flat :: "real \<Rightarrow> features" where
  "flat x = \<lparr>energy = x, valence = x, danceability = x\<rparr>"

definition example_world :: world where
  "example_world =
     \<lparr>str_lower = (\<lambda>s. s),
      str_of = (\<lambda>v. ''?''),
      np_mean = exact_mean,
      cosine_similarity = (\<lambda>u v. if u = v then 1 else 1 / 2),
      clock = (\<lambda>n. 1000000000 + int n),
      db_history = (\<lambda>u. Inr [\<lparr>track_id = Some ''t1''\<rparr>, \<lparr>track_id = None\<rparr>]),
      sp_search = (\<lambda>q. Inr []),
      sp_audio_features =
        (\<lambda>n ids. if n = 0 then Inr [Some (flat 0.5)]
                 else Inr [Some (flat 0.1), None, Some (flat 0.5)]),
      sp_recommendations =
        (\<lambda>seeds. Inr [example_track ''c1'', example_track ''c2'', example_track ''c3''])\<rparr>"

definition example_request :: request where
  "example_request =
     \<lparr>http_method = ''POST'',
      get_json = Some (JObj [(''user_id'', JStr ''u''), (''mood'', JStr ''sad'')])\<rparr>"

definition example_cache :: cache where
  "example_cache =
     [(''u_sad'', \<lparr>data = Recommendations [], timestamp = 0\<rparr>),
      (''v_chill'', \<lparr>data = Recommendations [], timestamp = 900000000\<rparr>)]"

text \<open>
  Further caches, requests and worlds: a cache with a fresh entry for the example
  request, requests that end before the cache is read, and worlds in which one
  collaborator raises or has nothing to give.
\<close>

definition hit_cache :: cache where
  "hit_cache =
     [(''u_sad'', \<lparr>data = Recommendations [], timestamp = 999999999\<rparr>),
      (''v_chill'', \<lparr>data = Recommendations [], timestamp = 0\<rparr>)]"

definition empty_request :: request where
  "empty_request = \<lparr>http_method = ''POST'', get_json = None\<rparr>"

definition options_request :: request where
  "options_request = \<lparr>http_method = ''OPTIONS'', get_json = None\<rparr>"

definition mood_only_request :: request where
  "mood_only_request =
     \<lparr>http_method = ''POST'', get_json = Some (JObj [(''mood'', JInt 5)])\<rparr>"

definition array_request :: request where
  "array_request = \<lparr>http_method = ''POST'', get_json = Some (JArr [JInt 1])\<rparr>"

definition no_history_world :: world where
  "no_history_world = example_world\<lparr>db_history := (\<lambda>u. Inr [])\<rparr>"

definition null_seed_features_world :: world where
  "null_seed_features_world =
     example_world\<lparr>sp_audio_features := (\<lambda>n ids. Inr [None])\<rparr>"

definition failing_history_world :: world where
  "failing_history_world =
     example_world\<lparr>db_history := (\<lambda>u. Inl (CollaboratorError ''deadline exceeded''))\<rparr>"

definition failing_search_world :: world where
  "failing_search_world =
     no_history_world\<lparr>sp_search := (\<lambda>q. Inl (CollaboratorError ''rate limited''))\<rparr>"

definition failing_seed_features_world :: world where
  "failing_seed_features_world =
     example_world\<lparr>sp_audio_features := (\<lambda>n ids. Inl (CollaboratorError ''rate limited''))\<rparr>"

definition failing_recommendations_world :: world where
  "failing_recommendations_world =
     example_world\<lparr>sp_recommendations := (\<lambda>seeds. Inl (CollaboratorError ''rate limited''))\<rparr>"

definition failing_rec_features_world :: world where
  "failing_rec_features_world =
     example_world\<lparr>sp_audio_features :=
       (\<lambda>n ids. if n = 0 then Inr [Some (flat 0.5)]
                else Inl (CollaboratorError ''rate limited''))\<rparr>"


definition example_candidates :: "track list" where
  "example_candidates = [example_track ''c1'', example_track ''c2'', example_track ''c3'']"

definition example_scored_track :: "string \<Rightarrow> real \<Rightarrow> scored_track" where
  "example_scored_track i x =
     \<lparr>sid = i, sname = ''song '' @ i, artist = ''band'', image = [],
      uri = ''spotify:track:'' @ i, preview_url = None, score = x\<rparr>"

definition example_scored :: "scored_track list" where
  "example_scored = [example_scored_track ''c1'' (1 / 2), example_scored_track ''c3'' (double_of (4 / 5))]"

definition no_artist_track :: track where
  "no_artist_track = (example_track ''c4'')\<lparr>artists := []\<rparr>"

definition no_artist_world :: world where
  "no_artist_world =
     example_world\<lparr>sp_audio_features := (\<lambda>n ids. Inr [Some (flat 0.5)]),
                   sp_recommendations := (\<lambda>seeds. Inr [no_artist_track])\<rparr>"

definition swept_example_cache :: cache where
  "swept_example_cache = [(''v_chill'', \<lparr>data = Recommendations [], timestamp = 900000000\<rparr>)]"

section \<open>The sweeper\<close>

lemma set_fold_delete:
  "set (fold AList.delete ks c) = {p \<in> set c. fst p \<notin> set ks}"
  by (induction ks arbitrary: c) (auto simp: AList.delete_eq)

lemma clean_old_cache_set:
  "set (clean_old_cache now c) =
     {p \<in> set c. \<forall>e. (fst p, e) \<in> set c \<longrightarrow> now - timestamp e \<le> ten_minutes}"
  unfolding clean_old_cache_def Let_def set_fold_delete
  by (auto simp: image_iff)

lemma clean_old_cache_fresh:
  "(k, e) \<in> set (clean_old_cache now c) \<Longrightarrow> (k, e) \<in> set c \<and> now - timestamp e \<le> ten_minutes"
  by (auto simp: clean_old_cache_set)

lemma clean_old_cache_lookup:
  "map_of (clean_old_cache now c) k = Some e \<Longrightarrow> (k, e) \<in> set c \<and> now - timestamp e \<le> ten_minutes"
  using clean_old_cache_fresh map_of_SomeD by fast

lemma clean_old_cache_removes:
  "(k, e) \<in> set c \<Longrightarrow> now - timestamp e > ten_minutes \<Longrightarrow> map_of (clean_old_cache now c) k = None"
proof (rule ccontr)
  assume a: "(k, e) \<in> set c" "now - timestamp e > ten_minutes"
  assume "map_of (clean_old_cache now c) k \<noteq> None"
  then obtain e' where "map_of (clean_old_cache now c) k = Some e'" by auto
  then have "(k, e') \<in> set (clean_old_cache now c)" by (rule map_of_SomeD)
  then show False using a by (auto simp: clean_old_cache_set)
qed

section \<open>Sorting\<close>

lemma sorted_reverse_mset: "mset (sorted_reverse key xs) = mset xs"
  by (simp add: sorted_reverse_def)

lemma sorted_reverse_length: "length (sorted_reverse key xs) = length xs"
  by (simp add: sorted_reverse_def)

lemma sorted_reverse_descending:
  "sorted_wrt (\<lambda>a b. key a \<ge> key b) (sorted_reverse key xs)"
proof -
  have "sorted (map key (sort_key key (rev xs)))" by simp
  then have "sorted_wrt (\<lambda>a b. key a \<le> key b) (sort_key key (rev xs))"
    by (simp add: sorted_map)
  then show ?thesis
    unfolding sorted_reverse_def by (simp add: sorted_wrt_rev)
qed

lemma sorted_reverse_stable:
  "filter (\<lambda>x. key x = k) (sorted_reverse key xs) = filter (\<lambda>x. key x = k) xs"
proof -
  have "filter (\<lambda>x. key x = k) (sort_key key (rev xs)) = filter (\<lambda>x. key x = k) (rev xs)"
    by (rule sort_key_stable)
  then show ?thesis
    unfolding sorted_reverse_def by (simp add: rev_filter[symmetric])
qed

lemma sorted_wrt_take: "sorted_wrt P xs \<Longrightarrow> sorted_wrt P (take n xs)"
  by (metis append_take_drop_id sorted_wrt_append)

section \<open>Rounding\<close>

lemma round_half_even_near: "\<bar>of_int (round_half_even y) - y\<bar> \<le> 1 / 2"
  unfolding round_half_even_def Let_def by (auto; linarith)

lemma py_round_near:
  "\<exists>n::int. \<bar>of_int n / 10 ^ d - x\<bar> \<le> 1 / (2 * 10 ^ d) \<and>
     py_round x d = double_of (of_int n / 10 ^ d)"
proof -
  define n where "n = round_half_even (x * 10 ^ d)"
  have "\<bar>of_int n - x * 10 ^ d\<bar> \<le> 1 / 2"
    unfolding n_def by (rule round_half_even_near)
  then have "\<bar>of_int n - x * 10 ^ d\<bar> / 10 ^ d \<le> (1 / 2) / 10 ^ d"
    by (rule divide_right_mono) simp
  moreover have "of_int n / 10 ^ d - x = (of_int n - x * 10 ^ d) / 10 ^ d"
    by (simp add: diff_divide_distrib)
  ultimately have "\<bar>of_int n / 10 ^ d - x\<bar> \<le> 1 / (2 * 10 ^ d)"
    by simp
  moreover have "py_round x d = double_of (of_int n / 10 ^ d)"
    by (simp add: py_round_def n_def)
  ultimately show ?thesis by blast
qed

lemma binade_bounds:
  assumes "x \<noteq> 0"
  shows "2 powi binade x \<le> \<bar>x\<bar> \<and> \<bar>x\<bar> < 2 powi (binade x + 1)"
proof (cases "1 \<le> \<bar>x\<bar>")
  case True
  define n where "n = nat \<lfloor>\<bar>x\<bar>\<rfloor>"
  define k where "k = floorlog 2 n"
  have n1: "1 \<le> n" using True by (simp add: n_def le_nat_iff le_floor_iff)
  then have b: "2 ^ (k - 1) \<le> n" "n < 2 ^ k"
    using floorlog_bounds[of n 2] by (simp_all add: k_def)
  have k1: "1 \<le> k" using n1 by (simp add: k_def floorlog_def)
  have bin: "binade x = int k - 1" using True by (simp add: binade_def n_def k_def)
  have lo: "real n \<le> \<bar>x\<bar>" unfolding n_def by simp
  have hi: "\<bar>x\<bar> < real n + 1" unfolding n_def by simp
  have p1: "(2::real) powi (int k - 1) = 2 ^ (k - 1)"
    using k1 by (simp add: power_int_def nat_diff_distrib')
  have p2: "(2::real) powi (int k - 1 + 1) = 2 ^ k"
    by (simp add: power_int_def)
  have "(2::real) ^ (k - 1) \<le> real n" using b(1) by (metis of_nat_le_iff of_nat_numeral of_nat_power)
  moreover have "real n + 1 \<le> 2 ^ k"
    using b(2) by (metis Suc_leI of_nat_Suc of_nat_le_iff of_nat_numeral of_nat_power add.commute)
  ultimately show ?thesis using lo hi unfolding bin p1 p2 by linarith
next
  case False
  define y where "y = 1 / \<bar>x\<bar>"
  define m where "m = nat (\<lceil>y\<rceil> - 1)"
  define k where "k = floorlog 2 m"
  have xp: "0 < \<bar>x\<bar>" "\<bar>x\<bar> < 1" using assms False by simp_all
  then have y1: "1 < y" by (simp add: y_def)
  then have c2: "2 \<le> \<lceil>y\<rceil>" by (simp add: le_ceiling_iff)
  then have m1: "1 \<le> m" unfolding m_def by arith
  have "int m = \<lceil>y\<rceil> - 1" using c2 unfolding m_def by arith
  then have mr: "real m = of_int \<lceil>y\<rceil> - 1" by (metis of_int_1 of_int_diff of_int_of_nat_eq)
  have lo: "real m < y" unfolding mr by linarith
  have hi: "y \<le> real m + 1" unfolding mr by simp
  have b: "2 ^ (k - 1) \<le> m" "m < 2 ^ k"
    using floorlog_bounds[of m 2] m1 by (simp_all add: k_def)
  have k1: "1 \<le> k" using m1 by (simp add: k_def floorlog_def)
  have bin: "binade x = - int k" using False by (simp add: binade_def y_def m_def k_def)
  have r1: "(2::real) ^ (k - 1) \<le> real m" using b(1) by (metis of_nat_le_iff of_nat_numeral of_nat_power)
  have r2: "real m + 1 \<le> 2 ^ k"
    using b(2) by (metis Suc_leI of_nat_Suc of_nat_le_iff of_nat_numeral of_nat_power add.commute)
  have yk: "y \<le> 2 ^ k" using hi r2 by linarith
  have yk1: "2 ^ (k - 1) < y" using lo r1 by linarith
  have p1: "(2::real) powi (- int k) = 1 / 2 ^ k"
    by (simp add: power_int_def field_simps)
  have p2: "(2::real) powi (- int k + 1) = 1 / 2 ^ (k - 1)"
    using k1 by (simp add: power_int_def field_simps nat_diff_distrib' power_diff)
  have "1 / 2 ^ k \<le> \<bar>x\<bar>"
    using yk xp by (simp add: y_def field_simps)
  moreover have "\<bar>x\<bar> < 1 / 2 ^ (k - 1)"
    using yk1 xp by (simp add: y_def field_simps)
  ultimately show ?thesis unfolding bin p1 p2 by simp
qed

lemma weighted_score_spec:
  "weighted_score w u tg (feature_vec f) = spec_weighted_sum w u tg f"
  by (simp add: weighted_score_def spec_weighted_sum_def mult.commute)

lemma weighted_score_example:
  assumes "cosine_similarity w u v = 0" and "cosine_similarity w tg v = double_of 0.62625"
  shows "weighted_score w u tg v = double_of 0.2505 \<and>
         py_round (weighted_score w u tg v) 3 = double_of 0.251"
proof -
  have "double_of (double_of (0 * double_of 0.6) + double_of (double_of 0.62625 * double_of 0.4))
      = double_of 0.2505"
    by code_simp
  moreover have "py_round (double_of 0.2505) 3 = double_of 0.251"
    by code_simp
  ultimately show ?thesis using assms by (simp add: weighted_score_def)
qed

section \<open>The scoring loop\<close>

lemma scored_entry_Inr:
  "scored_entry w u tg t f = Inr s \<Longrightarrow>
     artists t \<noteq> [] \<and> sid s = tid t \<and> sname s = tname t \<and> artist s = hd (artists t) \<and>
     image s = (if images t = [] then [] else hd (images t)) \<and> uri s = turi t \<and>
     preview_url s = tpreview_url t \<and>
     score s = py_round (weighted_score w u tg (feature_vec f)) 3"
  by (auto simp: scored_entry_def Let_def split: list.splits)

lemma scored_entry_total:
  "artists t \<noteq> [] \<Longrightarrow> \<exists>s. scored_entry w u tg t f = Inr s"
  by (auto simp: scored_entry_def Let_def split: list.splits)

lemma score_loop_sound:
  "score_loop w u tg fs i ts acc = Inr scored \<Longrightarrow>
     (ts = [] \<or> i + length ts \<le> length fs) \<and>
     (\<exists>rest. scored = acc @ rest \<and>
        list_all2 (\<lambda>s (t, f). scored_entry w u tg t f = Inr s) rest
          (with_features ts (drop i fs)))"
proof (induction ts arbitrary: i acc)
  case Nil
  then show ?case by simp
next
  case (Cons t ts)
  from Cons.prems have len: "i < length fs" by (simp split: if_splits)
  then have dr: "drop i fs = fs ! i # drop (Suc i) fs" by (simp add: Cons_nth_drop_Suc)
  show ?case
  proof (cases "fs ! i")
    case None
    with Cons.prems len have "score_loop w u tg fs (Suc i) ts acc = Inr scored" by simp
    from Cons.IH[OF this] show ?thesis using None dr len by auto
  next
    case (Some f)
    show ?thesis
    proof (cases "scored_entry w u tg t f")
      case (Inl e)
      with Cons.prems len Some show ?thesis by simp
    next
      case (Inr s)
      with Cons.prems len Some
      have "score_loop w u tg fs (Suc i) ts (acc @ [s]) = Inr scored" by simp
      from Cons.IH[OF this] obtain rest where
        "ts = [] \<or> Suc i + length ts \<le> length fs" "scored = (acc @ [s]) @ rest"
        "list_all2 (\<lambda>s (t, f). scored_entry w u tg t f = Inr s) rest
          (with_features ts (drop (Suc i) fs))" by blast
      then show ?thesis using Some dr Inr len by auto
    qed
  qed
qed

lemma score_loop_total:
  "i + length ts \<le> length fs \<Longrightarrow>
   \<forall>(t, f) \<in> set (with_features ts (drop i fs)). artists t \<noteq> [] \<Longrightarrow>
   \<exists>scored. score_loop w u tg fs i ts acc = Inr scored"
proof (induction ts arbitrary: i acc)
  case Nil
  then show ?case by simp
next
  case (Cons t ts)
  from Cons.prems have len: "i < length fs" by simp
  then have dr: "drop i fs = fs ! i # drop (Suc i) fs" by (simp add: Cons_nth_drop_Suc)
  show ?case
  proof (cases "fs ! i")
    case None
    have "\<exists>scored. score_loop w u tg fs (Suc i) ts acc = Inr scored"
      using Cons.prems None dr by (intro Cons.IH) simp_all
    then show ?thesis using None len by simp
  next
    case (Some f)
    then have "artists t \<noteq> []" using Cons.prems(2) dr by simp
    then obtain s where s: "scored_entry w u tg t f = Inr s"
      using scored_entry_total by blast
    have "\<exists>scored. score_loop w u tg fs (Suc i) ts (acc @ [s]) = Inr scored"
      using Cons.prems Some dr by (intro Cons.IH) simp_all
    then show ?thesis using Some len s by simp
  qed
qed

lemma with_features_replicate_None: "with_features ts (replicate n None) = []"
  by (induction ts arbitrary: n) (auto simp: replicate_app_Cons_same split: nat.splits, (case_tac n; simp)+)

lemma length_with_features: "length (with_features ts fs) \<le> length ts"
  by (induction ts fs rule: with_features.induct) auto

section \<open>The steps of the handler\<close>

lemma validate_Inl:
  "validate w c req = Inl out \<Longrightarrow> cache_after out = c \<and> calls out = []"
  by (auto simp: validate_def unexpected_def Let_def split: if_splits sum.splits)

lemma check_cache_Inr:
  "check_cache w c req = Inr (c', key, user_id, mood) \<Longrightarrow>
     validate w c req = Inr (user_id, mood) \<and> c' = clean_old_cache (clock w 0) c \<and>
     key = cache_key w user_id mood \<and> map_of c' key = None"
  by (auto simp: check_cache_def Let_def split: sum.splits option.splits)

lemma check_cache_Inl:
  "check_cache w c req = Inl out \<Longrightarrow>
     validate w c req = Inl out \<or>
     (\<exists>user_id mood entry. validate w c req = Inr (user_id, mood) \<and>
        map_of (clean_old_cache (clock w 0) c) (cache_key w user_id mood) = Some entry \<and>
        out = \<lparr>response = (data entry, 200, cors),
               cache_after = clean_old_cache (clock w 0) c, calls = []\<rparr>)"
  by (auto simp: check_cache_def Let_def split: sum.splits option.splits)

lemma check_cache_Inl_frame:
  "check_cache w c req = Inl out \<Longrightarrow>
     (cache_after out = c \<or> cache_after out = clean_old_cache (clock w 0) c) \<and> calls out = []"
  using check_cache_Inl[of w c req out] validate_Inl[of w c req out] by auto

lemma seed_tracks_Inr:
  "seed_tracks w c req = Inr (c', cs, key, mood, track_ids) \<Longrightarrow>
     \<exists>user_id history. check_cache w c req = Inr (c', key, user_id, mood) \<and>
       db_history w user_id = Inr history \<and>
       (history_track_ids history \<noteq> [] \<and> track_ids = history_track_ids history \<and>
          cs = [History user_id]
        \<or> history_track_ids history = [] \<and> sp_search w mood = Inr track_ids \<and>
          cs = [History user_id, Search mood])"
  by (auto simp: seed_tracks_def Let_def split: sum.splits if_splits)

lemma seed_tracks_Inl_frame:
  assumes that: "seed_tracks w c req = Inl out"
  shows "cache_after out = c \<or> cache_after out = clean_old_cache (clock w 0) c"
proof (cases "check_cache w c req")
  case (Inl out')
  then show ?thesis
    using that check_cache_Inl_frame[of w c req out'] by (simp add: seed_tracks_def)
next
  case (Inr x)
  obtain c' key user_id mood where x: "x = (c', key, user_id, mood)"
    by (cases x) auto
  have "c' = clean_old_cache (clock w 0) c"
    using Inr x check_cache_Inr by blast
  then show ?thesis
    using that Inr x
    by (auto simp: seed_tracks_def unexpected_def Let_def split: sum.splits if_splits)
qed

lemma seed_tracks_Inr_frame:
  "seed_tracks w c req = Inr (c', cs, key, mood, track_ids) \<Longrightarrow>
     c' = clean_old_cache (clock w 0) c"
  by (auto dest!: seed_tracks_Inr check_cache_Inr)

lemma candidates_Inr:
  "candidates w c req = Inr (c', cs, key, user_vec, target, tracks) \<Longrightarrow>
     \<exists>cs0 mood track_ids fs. seed_tracks w c req = Inr (c', cs0, key, mood, track_ids) \<and>
       track_ids \<noteq> [] \<and> sp_audio_features w 0 track_ids = Inr fs \<and> non_null fs \<noteq> [] \<and>
       user_vec = np_mean w (map feature_vec (non_null fs)) \<and> target = mood_target mood \<and>
       sp_recommendations w (take 5 track_ids) = Inr tracks \<and>
       cs = cs0 @ [AudioFeatures track_ids, GetRecommendations (take 5 track_ids)]"
  by (auto simp: candidates_def Let_def split: sum.splits if_splits)

lemma candidates_Inl_frame:
  assumes that: "candidates w c req = Inl out"
  shows "cache_after out = c \<or> cache_after out = clean_old_cache (clock w 0) c"
proof (cases "seed_tracks w c req")
  case (Inl out')
  then show ?thesis
    using that seed_tracks_Inl_frame[of w c req out'] by (simp add: candidates_def)
next
  case (Inr x)
  obtain c' cs key mood track_ids where x: "x = (c', cs, key, mood, track_ids)"
    by (cases x) auto
  have "c' = clean_old_cache (clock w 0) c"
    using Inr x seed_tracks_Inr_frame by blast
  then show ?thesis
    using that Inr x
    by (auto simp: candidates_def Let_def split: sum.splits if_splits)
qed

lemma candidates_Inr_frame:
  "candidates w c req = Inr (c', cs, key, user_vec, target, tracks) \<Longrightarrow>
     c' = clean_old_cache (clock w 0) c"
  by (auto dest!: candidates_Inr seed_tracks_Inr_frame)

lemma validate_Inr:
  "validate w c req = Inr (user_id, mood) \<Longrightarrow>
     http_method req \<noteq> ''OPTIONS'' \<and> truthy user_id \<and>
     dict_get (get_data req) ''user_id'' JNull = Inr user_id \<and>
     (\<exists>s. dict_get (get_data req) ''mood'' (JStr ''chill'') = Inr (JStr s) \<and>
          mood = str_lower w s)"
  by (auto simp: validate_def lower_def Let_def split: if_splits sum.splits json.splits)

lemma check_cache_Inl_validate:
  "validate w c req = Inl out \<Longrightarrow> check_cache w c req = Inl out"
  by (simp add: check_cache_def)

lemma check_cache_hit:
  "validate w c req = Inr (user_id, mood) \<Longrightarrow>
   map_of (clean_old_cache (clock w 0) c) (cache_key w user_id mood) = Some entry \<Longrightarrow>
   check_cache w c req =
     Inl \<lparr>response = (data entry, 200, cors),
          cache_after = clean_old_cache (clock w 0) c, calls = []\<rparr>"
  by (simp add: check_cache_def Let_def)

lemma seed_tracks_Inl:
  "check_cache w c req = Inl out \<Longrightarrow> seed_tracks w c req = Inl out"
  by (simp add: seed_tracks_def)

lemma candidates_Inl:
  "seed_tracks w c req = Inl out \<Longrightarrow> candidates w c req = Inl out"
  by (simp add: candidates_def)

lemma vibe_recommend_Inl:
  "candidates w c req = Inl out \<Longrightarrow> vibe_recommend w c req = out"
  by (simp add: vibe_recommend_def)

lemma vibe_recommend_Inr:
  "candidates w c req = Inr (c', cs, key, user_vec, target, tracks) \<Longrightarrow>
   vibe_recommend w c req = score_and_store w c' cs key user_vec target tracks"
  by (simp add: vibe_recommend_def)

lemma vibe_recommend_check_cache:
  "check_cache w c req = Inl out \<Longrightarrow> vibe_recommend w c req = out"
  by (simp add: seed_tracks_Inl candidates_Inl vibe_recommend_Inl)

lemma score_loop_all_None:
  "i + length ts \<le> n \<Longrightarrow> score_loop w u tg (replicate n None) i ts acc = Inr acc"
  by (induction ts arbitrary: i) auto

lemma non_null_empty: "non_null fs = [] \<longleftrightarrow> (\<forall>f \<in> set fs. f = None)"
  by (induction fs) (auto simp: non_null_def List.map_filter_simps split: option.splits)

lemma with_features_fst: "(t, f) \<in> set (with_features ts fs) \<Longrightarrow> t \<in> set ts"
  by (induction ts fs rule: with_features.induct) auto

lemma score_and_store_Inr:
  "score_loop w user_vec target (rec_features w tracks) 0 tracks [] = Inr scored \<Longrightarrow>
   score_and_store w c cs key user_vec target tracks =
     \<lparr>response = (Recommendations (top10 scored), 200, cors),
      cache_after =
        AList.update key \<lparr>data = Recommendations (top10 scored), timestamp = clock w 1\<rparr> c,
      calls = cs @ [AudioFeatures (map tid tracks)]\<rparr>"
  by (simp add: score_and_store_def Let_def)

lemma score_and_store_Inl:
  "score_loop w user_vec target (rec_features w tracks) 0 tracks [] = Inl e \<Longrightarrow>
   score_and_store w c cs key user_vec target tracks =
     unexpected e c (cs @ [AudioFeatures (map tid tracks)])"
  by (simp add: score_and_store_def Let_def)

lemma example_run:
  "candidates example_world example_cache example_request =
     Inr (swept_example_cache,
          [History (JStr ''u''), AudioFeatures [''t1''], GetRecommendations [''t1'']],
          ''u_sad'', [1 / 2, 1 / 2, 1 / 2], mood_target ''sad'', example_candidates)"
  by code_simp

lemma example_loop:
  "score_loop example_world [1 / 2, 1 / 2, 1 / 2] (mood_target ''sad'')
     (rec_features example_world example_candidates) 0 example_candidates [] =
   Inr example_scored"
  by code_simp

section \<open>Claims\<close>

text \<open>
  C6. The target vector of a mood (the mood string after \<^verbatim>\<open>.lower()\<close>) that is not
  one of happy, sad, energetic, chill, focus and party is \<open>[0.5, 0.5, 0.5]\<close>; each of
  the six known moods has the vector of the table; every component of every target
  vector lies between 0 and 1; and the target a request is scored against is the
  target of its lower-cased mood field.
\<close>

theorem mood_target_table:
  "mood_target ''happy'' = [0.8, 0.9, 0.8] \<and>
   mood_target ''sad'' = [0.2, 0.3, 0.3] \<and>
   mood_target ''energetic'' = [0.9, 0.6, 0.9] \<and>
   mood_target ''chill'' = [0.4, 0.5, 0.4] \<and>
   mood_target ''focus'' = [0.6, 0.4, 0.5] \<and>
   mood_target ''party'' = [0.9, 0.7, 0.95] \<and>
   (mood \<notin> {''happy'', ''sad'', ''energetic'', ''chill'', ''focus'', ''party''} \<longrightarrow>
      mood_target mood = [0.5, 0.5, 0.5]) \<and>
   (\<forall>x \<in> set (mood_target mood). 0 \<le> x \<and> x \<le> 1) \<and>
   (candidates w c req = Inr (c', cs, key, user_vec, target, tracks) \<longrightarrow>
      (\<exists>s. dict_get (get_data req) ''mood'' (JStr ''chill'') = Inr (JStr s) \<and>
           target = mood_target (str_lower w s)))"
proof -
  have known: "mood_target ''happy'' = [0.8, 0.9, 0.8]" "mood_target ''sad'' = [0.2, 0.3, 0.3]"
    "mood_target ''energetic'' = [0.9, 0.6, 0.9]" "mood_target ''chill'' = [0.4, 0.5, 0.4]"
    "mood_target ''focus'' = [0.6, 0.4, 0.5]" "mood_target ''party'' = [0.9, 0.7, 0.95]"
    by (simp_all add: mood_target_def mood_map_def)
  have other: "mood \<notin> {''happy'', ''sad'', ''energetic'', ''chill'', ''focus'', ''party''} \<Longrightarrow>
      mood_target mood = [0.5, 0.5, 0.5]"
    by (simp add: mood_target_def mood_map_def)
  have range: "\<forall>x \<in> set (mood_target mood). 0 \<le> x \<and> x \<le> 1"
  proof (cases "mood \<in> {''happy'', ''sad'', ''energetic'', ''chill'', ''focus'', ''party''}")
    case True
    then show ?thesis using known by auto
  next
    case False
    then show ?thesis using other by simp
  qed
  have run: "\<exists>s. dict_get (get_data req) ''mood'' (JStr ''chill'') = Inr (JStr s) \<and>
           target = mood_target (str_lower w s)"
    if "candidates w c req = Inr (c', cs, key, user_vec, target, tracks)"
  proof -
    from candidates_Inr[OF that] obtain cs0 m track_ids where
      st: "seed_tracks w c req = Inr (c', cs0, key, m, track_ids)" and tg: "target = mood_target m"
      by blast
    from seed_tracks_Inr[OF st] obtain user_id where
      "check_cache w c req = Inr (c', key, user_id, m)" by blast
    then have "validate w c req = Inr (user_id, m)" using check_cache_Inr by blast
    from validate_Inr[OF this] tg show ?thesis by blast
  qed
  show ?thesis using known other range run by blast
qed

theorem mood_target_table_witness:
  "''jazz'' \<notin> {''happy'', ''sad'', ''energetic'', ''chill'', ''focus'', ''party''} \<and>
   mood_target ''jazz'' = [0.5, 0.5, 0.5] \<and>
   set (mood_target ''party'') = {0.9, 0.7, 0.95} \<and>
   candidates example_world example_cache example_request =
     Inr ([(''v_chill'', \<lparr>data = Recommendations [], timestamp = 900000000\<rparr>)],
          [History (JStr ''u''), AudioFeatures [''t1''], GetRecommendations [''t1'']],
          ''u_sad'', [1 / 2, 1 / 2, 1 / 2], mood_target ''sad'',
          [example_track ''c1'', example_track ''c2'', example_track ''c3'']) \<and>
   dict_get (get_data example_request) ''mood'' (JStr ''chill'') = Inr (JStr ''sad'') \<and>
   str_lower example_world ''sad'' = ''sad''"
proof -
  have run: "candidates example_world example_cache example_request =
     Inr ([(''v_chill'', \<lparr>data = Recommendations [], timestamp = 900000000\<rparr>)],
          [History (JStr ''u''), AudioFeatures [''t1''], GetRecommendations [''t1'']],
          ''u_sad'', [1 / 2, 1 / 2, 1 / 2], mood_target ''sad'',
          [example_track ''c1'', example_track ''c2'', example_track ''c3''])"
    by code_simp
  have field: "dict_get (get_data example_request) ''mood'' (JStr ''chill'') = Inr (JStr ''sad'')"
    by (simp add: dict_get_def get_data_def example_request_def)
  have low: "str_lower example_world ''sad'' = ''sad''"
    by (simp add: example_world_def)
  have "''jazz'' \<notin> {''happy'', ''sad'', ''energetic'', ''chill'', ''focus'', ''party''}"
    by simp
  moreover have "set (mood_target ''party'') = {0.9, 0.7, 0.95}"
    using mood_target_table[of "''party''"] by simp
  ultimately show ?thesis
    using mood_target_table[of "''jazz''" example_world example_cache example_request] run field low
    by simp
qed

text \<open>
  C4. A request that passes the check of \<^verbatim>\<open>user_id\<close> and whose key is in the swept
  cache is answered with the payload stored under that key, with status 200, and
  without a call to the history store or the catalog service.
\<close>

theorem cache_hit:
  assumes "validate w c req = Inr (user_id, mood)"
    and "distinct (map fst c)"
    and "map_of (clean_old_cache (clock w 0) c) (cache_key w user_id mood) = Some entry"
  shows "map_of c (cache_key w user_id mood) = Some entry \<and>
         response (vibe_recommend w c req) = (data entry, 200, cors) \<and>
         calls (vibe_recommend w c req) = []"
proof -
  have "(cache_key w user_id mood, entry) \<in> set c"
    using assms(3) clean_old_cache_lookup by blast
  then have stored: "map_of c (cache_key w user_id mood) = Some entry"
    using assms(2) by simp
  have "vibe_recommend w c req =
     \<lparr>response = (data entry, 200, cors),
      cache_after = clean_old_cache (clock w 0) c, calls = []\<rparr>"
    using check_cache_hit[OF assms(1) assms(3)] by (rule vibe_recommend_check_cache)
  then show ?thesis using stored by simp
qed

theorem cache_hit_witness:
  "validate example_world hit_cache example_request = Inr (JStr ''u'', ''sad'') \<and>
   distinct (map fst hit_cache) \<and>
   map_of (clean_old_cache (clock example_world 0) hit_cache)
     (cache_key example_world (JStr ''u'') ''sad'') =
     Some \<lparr>data = Recommendations [], timestamp = 999999999\<rparr> \<and>
   response (vibe_recommend example_world hit_cache example_request) =
     (Recommendations [], 200, cors) \<and>
   calls (vibe_recommend example_world hit_cache example_request) = []"
proof -
  have v: "validate example_world hit_cache example_request = Inr (JStr ''u'', ''sad'')"
    by code_simp
  have d: "distinct (map fst hit_cache)" by code_simp
  have m: "map_of (clean_old_cache (clock example_world 0) hit_cache)
     (cache_key example_world (JStr ''u'') ''sad'') =
     Some \<lparr>data = Recommendations [], timestamp = 999999999\<rparr>"
    by code_simp
  show ?thesis using cache_hit[OF v d m] v d m by simp
qed

text \<open>
  C1. On a request that reaches the scoring loop, every candidate whose entry of
  \<^verbatim>\<open>rec_features\<close> is not null gets one entry of \<^verbatim>\<open>scored\<close>, in order, with the
  candidate's id and a score that is the weighted sum (0.6 times the similarity to the
  user vector plus 0.4 times the similarity to the mood target) rounded to three
  decimal digits: the double of a multiple of 0.001 that is no further than 0.0005
  from the sum. A candidate with a null entry gets no entry of \<^verbatim>\<open>scored\<close>. The answer
  is made of these entries. All this holds when the loop ends without an exception,
  and it does so when the feature list has an entry for every candidate and every
  candidate with an entry that is not null has an artist.
\<close>

theorem scoring_rule:
  assumes "candidates w c req = Inr (c', cs, key, user_vec, target, tracks)"
  shows "(score_loop w user_vec target (rec_features w tracks) 0 tracks [] = Inr scored \<longrightarrow>
            list_all2
              (\<lambda>s (t, f). sid s = tid t \<and>
                 (\<exists>n::int. \<bar>of_int n / 1000 - spec_weighted_sum w user_vec target f\<bar> \<le> 1 / 2000 \<and>
                    score s = double_of (of_int n / 1000)))
              scored (with_features tracks (rec_features w tracks)) \<and>
            response (vibe_recommend w c req) = (Recommendations (top10 scored), 200, cors)) \<and>
         (length tracks \<le> length (rec_features w tracks) \<and>
          (\<forall>(t, f) \<in> set (with_features tracks (rec_features w tracks)). artists t \<noteq> []) \<longrightarrow>
            (\<exists>scored'. score_loop w user_vec target (rec_features w tracks) 0 tracks [] =
               Inr scored'))"
proof (intro conjI impI)
  assume loop: "score_loop w user_vec target (rec_features w tracks) 0 tracks [] = Inr scored"
  have entry: "sid s = tid t \<and>
      (\<exists>n::int. \<bar>of_int n / 1000 - spec_weighted_sum w user_vec target f\<bar> \<le> 1 / 2000 \<and>
         score s = double_of (of_int n / 1000))"
    if "scored_entry w user_vec target t f = Inr s" for s t f
  proof -
    from scored_entry_Inr[OF that]
    have "sid s = tid t" and "score s = py_round (spec_weighted_sum w user_vec target f) 3"
      by (simp_all add: weighted_score_spec)
    then show ?thesis
      using py_round_near[of 3 "spec_weighted_sum w user_vec target f"] by simp
  qed
  from score_loop_sound[OF loop]
  have "list_all2 (\<lambda>s (t, f). scored_entry w user_vec target t f = Inr s) scored
          (with_features tracks (rec_features w tracks))"
    by simp
  then show "list_all2
      (\<lambda>s (t, f). sid s = tid t \<and>
         (\<exists>n::int. \<bar>of_int n / 1000 - spec_weighted_sum w user_vec target f\<bar> \<le> 1 / 2000 \<and>
            score s = double_of (of_int n / 1000)))
      scored (with_features tracks (rec_features w tracks))"
    by (rule list_all2_mono) (use entry in auto)
  show "response (vibe_recommend w c req) = (Recommendations (top10 scored), 200, cors)"
    using vibe_recommend_Inr[OF assms] score_and_store_Inr[OF loop] by simp
next
  assume wf: "length tracks \<le> length (rec_features w tracks) \<and>
    (\<forall>(t, f) \<in> set (with_features tracks (rec_features w tracks)). artists t \<noteq> [])"
  then have "\<forall>(t, f) \<in> set (with_features tracks (drop 0 (rec_features w tracks))).
      artists t \<noteq> []"
    by simp
  moreover have "0 + length tracks \<le> length (rec_features w tracks)" using wf by simp
  ultimately show "\<exists>scored'.
      score_loop w user_vec target (rec_features w tracks) 0 tracks [] = Inr scored'"
    by (rule score_loop_total[rotated])
qed

theorem scoring_rule_witness:
  "candidates example_world example_cache example_request =
     Inr (swept_example_cache,
          [History (JStr ''u''), AudioFeatures [''t1''], GetRecommendations [''t1'']],
          ''u_sad'', [1 / 2, 1 / 2, 1 / 2], mood_target ''sad'', example_candidates) \<and>
   length example_candidates \<le> length (rec_features example_world example_candidates) \<and>
   with_features example_candidates (rec_features example_world example_candidates) =
     [(example_track ''c1'', flat 0.1), (example_track ''c3'', flat 0.5)] \<and>
   artists (example_track ''c1'') \<noteq> [] \<and> artists (example_track ''c3'') \<noteq> [] \<and>
   score_loop example_world [1 / 2, 1 / 2, 1 / 2] (mood_target ''sad'')
     (rec_features example_world example_candidates) 0 example_candidates [] =
     Inr example_scored \<and>
   spec_weighted_sum example_world [1 / 2, 1 / 2, 1 / 2] (mood_target ''sad'') (flat 0.1) = 1 / 2 \<and>
   spec_weighted_sum example_world [1 / 2, 1 / 2, 1 / 2] (mood_target ''sad'') (flat 0.5) =
     double_of (4 / 5) \<and>
   map score example_scored = [double_of (500 / 1000), double_of (800 / 1000)] \<and>
   response (vibe_recommend example_world example_cache example_request) =
     (Recommendations (top10 example_scored), 200, cors)"
proof -
  have len: "length example_candidates \<le> length (rec_features example_world example_candidates)"
    by code_simp
  have pairs: "with_features example_candidates (rec_features example_world example_candidates) =
     [(example_track ''c1'', flat 0.1), (example_track ''c3'', flat 0.5)]"
    by code_simp
  have art: "artists (example_track ''c1'') \<noteq> []" "artists (example_track ''c3'') \<noteq> []"
    by (simp_all add: example_track_def)
  have sums:
    "spec_weighted_sum example_world [1 / 2, 1 / 2, 1 / 2] (mood_target ''sad'') (flat 0.1) = 1 / 2"
    "spec_weighted_sum example_world [1 / 2, 1 / 2, 1 / 2] (mood_target ''sad'') (flat 0.5) =
       double_of (4 / 5)"
    by code_simp+
  have scores: "map score example_scored = [double_of (500 / 1000), double_of (800 / 1000)]"
    by code_simp
  note rule = scoring_rule[OF example_run, of example_scored]
  from rule len pairs art
  have "\<exists>scored'. score_loop example_world [1 / 2, 1 / 2, 1 / 2] (mood_target ''sad'')
     (rec_features example_world example_candidates) 0 example_candidates [] = Inr scored'"
    by simp
  from rule example_loop
  have resp: "response (vibe_recommend example_world example_cache example_request) =
     (Recommendations (top10 example_scored), 200, cors)"
    by blast
  show ?thesis using example_run len pairs art example_loop sums scores resp by simp
qed

text \<open>
  C1 without the condition on the candidates: a candidate with a feature entry that is
  not null and with an empty list of artists. \<^verbatim>\<open>t['artists'][0]\<close> on line 152 raises
  \<open>IndexError\<close>, the top-level \<^verbatim>\<open>except\<close> answers with status 500, and the candidate
  gets no score.
\<close>

theorem scoring_rule_counterexample:
  "candidates no_artist_world example_cache example_request =
     Inr (swept_example_cache,
          [History (JStr ''u''), AudioFeatures [''t1''], GetRecommendations [''t1'']],
          ''u_sad'', [1 / 2, 1 / 2, 1 / 2], mood_target ''sad'', [no_artist_track]) \<and>
   rec_features no_artist_world [no_artist_track] = [Some (flat 0.5)] \<and>
   artists no_artist_track = [] \<and>
   response (vibe_recommend no_artist_world example_cache example_request) =
     (Error ''list index out of range'', 500, cors)"
  by code_simp

text \<open>
  C2. On a scoring run that ends without an exception, the answer holds the first ten
  of the scored entries put in descending order of score: the ordered list is a
  permutation of the scored entries, entries of equal score keep their original order,
  and the answer is no longer than ten and no longer than the number of candidates
  with a feature entry that is not null.
\<close>

theorem top_ten_sorted:
  assumes "candidates w c req = Inr (c', cs, key, user_vec, target, tracks)"
    and "score_loop w user_vec target (rec_features w tracks) 0 tracks [] = Inr scored"
  shows "response (vibe_recommend w c req) = (Recommendations (top10 scored), 200, cors) \<and>
         top10 scored = take 10 (sorted_reverse score scored) \<and>
         mset (sorted_reverse score scored) = mset scored \<and>
         sorted_wrt (\<lambda>a b. score a \<ge> score b) (sorted_reverse score scored) \<and>
         (\<forall>k. filter (\<lambda>x. score x = k) (sorted_reverse score scored) =
               filter (\<lambda>x. score x = k) scored) \<and>
         sorted_wrt (\<lambda>a b. score a \<ge> score b) (top10 scored) \<and>
         length (top10 scored) = min 10 (length scored) \<and>
         length scored = length (with_features tracks (rec_features w tracks)) \<and>
         length (top10 scored) \<le> 10 \<and>
         length (top10 scored) \<le> length (with_features tracks (rec_features w tracks))"
proof -
  have resp: "response (vibe_recommend w c req) = (Recommendations (top10 scored), 200, cors)"
    using vibe_recommend_Inr[OF assms(1)] score_and_store_Inr[OF assms(2)] by simp
  from score_loop_sound[OF assms(2)]
  have "list_all2 (\<lambda>s (t, f). scored_entry w user_vec target t f = Inr s) scored
          (with_features tracks (rec_features w tracks))"
    by simp
  then have len: "length scored = length (with_features tracks (rec_features w tracks))"
    by (rule list_all2_lengthD)
  have desc: "sorted_wrt (\<lambda>a b. score a \<ge> score b) (sorted_reverse score scored)"
    by (rule sorted_reverse_descending)
  have top_desc: "sorted_wrt (\<lambda>a b. score a \<ge> score b) (top10 scored)"
    unfolding top10_def using desc by (rule sorted_wrt_take)
  have l10: "length (top10 scored) = min 10 (length scored)"
    by (simp add: top10_def sorted_reverse_length min.commute)
  show ?thesis
    using resp len desc top_desc l10 sorted_reverse_mset[of score scored]
      sorted_reverse_stable[of score _ scored]
    by (simp add: top10_def)
qed

theorem top_ten_sorted_witness:
  "candidates example_world example_cache example_request =
     Inr (swept_example_cache,
          [History (JStr ''u''), AudioFeatures [''t1''], GetRecommendations [''t1'']],
          ''u_sad'', [1 / 2, 1 / 2, 1 / 2], mood_target ''sad'', example_candidates) \<and>
   score_loop example_world [1 / 2, 1 / 2, 1 / 2] (mood_target ''sad'')
     (rec_features example_world example_candidates) 0 example_candidates [] =
     Inr example_scored \<and>
   top10 example_scored =
     [example_scored_track ''c3'' (double_of (4 / 5)), example_scored_track ''c1'' (1 / 2)] \<and>
   response (vibe_recommend example_world example_cache example_request) =
     (Recommendations [example_scored_track ''c3'' (double_of (4 / 5)), example_scored_track ''c1'' (1 / 2)],
      200, cors) \<and>
   length (top10 example_scored) \<le> 10"
proof -
  have best: "top10 example_scored =
     [example_scored_track ''c3'' (double_of (4 / 5)), example_scored_track ''c1'' (1 / 2)]"
    by code_simp
  show ?thesis
    using top_ten_sorted[OF example_run example_loop] example_run example_loop best by simp
qed


text \<open>
  C3. Two requests without a \<^verbatim>\<open>user_id\<close>, as the handler answers them. The body
  \<^verbatim>\<open>{"mood": 5}\<close> has no \<^verbatim>\<open>user_id\<close>, but \<^verbatim>\<open>.lower()\<close> on line 56 runs before the
  check of line 58 and raises; the body \<^verbatim>\<open>[1]\<close> is a truthy list, on which
  \<^verbatim>\<open>data.get\<close> on line 55 raises. Both exceptions end at the top-level
  \<^verbatim>\<open>except\<close>: the status is 500, not 400, whatever the collaborators and the cache.
  When the body is a dict (or is missing, unparsable or falsy), its \<^verbatim>\<open>user_id\<close> is
  missing or falsy and its \<^verbatim>\<open>mood\<close> is missing or a string, the status is 400.
\<close>

theorem user_id_check_after_mood:
  "http_method mood_only_request \<noteq> ''OPTIONS'' \<and>
   dict_get (get_data mood_only_request) ''user_id'' JNull = Inr JNull \<and>
   \<not> truthy JNull \<and>
   response (vibe_recommend w c mood_only_request) =
     (Error (quoted ''int'' @ '' object has no attribute '' @ quoted ''lower''), 500, cors) \<and>
   http_method array_request \<noteq> ''OPTIONS'' \<and>
   response (vibe_recommend w c array_request) =
     (Error (quoted ''list'' @ '' object has no attribute '' @ quoted ''get''), 500, cors) \<and>
   (http_method req \<noteq> ''OPTIONS'' \<and> get_data req = JObj kvs \<and>
    \<not> truthy (case map_of kvs ''user_id'' of None \<Rightarrow> JNull | Some v \<Rightarrow> v) \<and>
    (case map_of kvs ''mood'' of None \<Rightarrow> JStr ''chill'' | Some v \<Rightarrow> v) = JStr s \<longrightarrow>
      response (vibe_recommend w c req) = (Error ''user_id required'', 400, cors))"
proof -
  have a: "validate w c mood_only_request =
      Inl (unexpected (no_attribute (JInt 5) ''lower'') c [])"
    by (simp add: validate_def mood_only_request_def get_data_def dict_get_def lower_def)
  have b: "validate w c array_request =
      Inl (unexpected (no_attribute (JArr [JInt 1]) ''get'') c [])"
    by (simp add: validate_def array_request_def get_data_def dict_get_def)
  have r1: "vibe_recommend w c mood_only_request =
      unexpected (no_attribute (JInt 5) ''lower'') c []"
    using a by (intro vibe_recommend_check_cache check_cache_Inl_validate)
  have r2: "vibe_recommend w c array_request =
      unexpected (no_attribute (JArr [JInt 1]) ''get'') c []"
    using b by (intro vibe_recommend_check_cache check_cache_Inl_validate)
  have r3: "response (vibe_recommend w c req) = (Error ''user_id required'', 400, cors)"
    if h: "http_method req \<noteq> ''OPTIONS'' \<and> get_data req = JObj kvs \<and>
      \<not> truthy (case map_of kvs ''user_id'' of None \<Rightarrow> JNull | Some v \<Rightarrow> v) \<and>
      (case map_of kvs ''mood'' of None \<Rightarrow> JStr ''chill'' | Some v \<Rightarrow> v) = JStr s"
  proof -
    have "validate w c req =
        Inl \<lparr>response = (Error ''user_id required'', 400, cors), cache_after = c, calls = []\<rparr>"
      using h by (simp add: validate_def dict_get_def lower_def Let_def)
    then have "vibe_recommend w c req =
        \<lparr>response = (Error ''user_id required'', 400, cors), cache_after = c, calls = []\<rparr>"
      by (intro vibe_recommend_check_cache check_cache_Inl_validate)
    then show ?thesis by simp
  qed
  have heads: "http_method mood_only_request \<noteq> ''OPTIONS''"
    "dict_get (get_data mood_only_request) ''user_id'' JNull = Inr JNull"
    "http_method array_request \<noteq> ''OPTIONS''"
    by (simp_all add: mood_only_request_def array_request_def get_data_def dict_get_def)
  show ?thesis
    using r1 r2 r3 heads by (simp add: unexpected_def no_attribute_def)
qed

theorem user_id_check_after_mood_witness:
  "response (vibe_recommend example_world example_cache mood_only_request) =
     (Error (quoted ''int'' @ '' object has no attribute '' @ quoted ''lower''), 500, cors) \<and>
   response (vibe_recommend example_world example_cache array_request) =
     (Error (quoted ''list'' @ '' object has no attribute '' @ quoted ''get''), 500, cors) \<and>
   http_method empty_request \<noteq> ''OPTIONS'' \<and> get_data empty_request = JObj [] \<and>
   \<not> truthy (case map_of [] ''user_id'' of None \<Rightarrow> JNull | Some v \<Rightarrow> v) \<and>
   (case map_of [] ''mood'' of None \<Rightarrow> JStr ''chill'' | Some v \<Rightarrow> v) = JStr ''chill'' \<and>
   response (vibe_recommend example_world example_cache empty_request) =
     (Error ''user_id required'', 400, cors)"
proof -
  have e: "http_method empty_request \<noteq> ''OPTIONS''" "get_data empty_request = JObj []"
    by (simp_all add: empty_request_def get_data_def)
  show ?thesis
    using user_id_check_after_mood[of example_world example_cache empty_request "[]" "''chill''"] e
    by simp
qed

text \<open>
  C5. The sweep removes every entry older than ten minutes, so that its key is no longer
  found; an entry found after the sweep was in the cache and is at most ten minutes
  old. The handler looks its key up in the swept cache: a hit answers with an entry at
  most ten minutes old, and a miss goes on with the swept cache.
\<close>

theorem sweep_before_lookup:
  "((k, e) \<in> set c \<and> now - timestamp e > ten_minutes \<longrightarrow>
      (k, e) \<notin> set (clean_old_cache now c) \<and> map_of (clean_old_cache now c) k = None) \<and>
   (map_of (clean_old_cache now c) k' = Some e' \<longrightarrow>
      (k', e') \<in> set c \<and> now - timestamp e' \<le> ten_minutes) \<and>
   (validate w c req = Inr (user_id, mood) \<longrightarrow>
      (case map_of (clean_old_cache (clock w 0) c) (cache_key w user_id mood) of
         Some entry \<Rightarrow>
           (cache_key w user_id mood, entry) \<in> set c \<and>
           clock w 0 - timestamp entry \<le> ten_minutes \<and>
           response (vibe_recommend w c req) = (data entry, 200, cors)
       | None \<Rightarrow>
           check_cache w c req =
             Inr (clean_old_cache (clock w 0) c, cache_key w user_id mood, user_id, mood)))"
proof (intro conjI impI)
  assume old: "(k, e) \<in> set c \<and> now - timestamp e > ten_minutes"
  then show "(k, e) \<notin> set (clean_old_cache now c)"
    using clean_old_cache_fresh[of k e now c] by auto
  show "map_of (clean_old_cache now c) k = None"
    using old clean_old_cache_removes by blast
next
  assume "map_of (clean_old_cache now c) k' = Some e'"
  then show "(k', e') \<in> set c" "now - timestamp e' \<le> ten_minutes"
    using clean_old_cache_lookup by blast+
next
  assume v: "validate w c req = Inr (user_id, mood)"
  show "case map_of (clean_old_cache (clock w 0) c) (cache_key w user_id mood) of
         Some entry \<Rightarrow>
           (cache_key w user_id mood, entry) \<in> set c \<and>
           clock w 0 - timestamp entry \<le> ten_minutes \<and>
           response (vibe_recommend w c req) = (data entry, 200, cors)
       | None \<Rightarrow>
           check_cache w c req =
             Inr (clean_old_cache (clock w 0) c, cache_key w user_id mood, user_id, mood)"
  proof (cases "map_of (clean_old_cache (clock w 0) c) (cache_key w user_id mood)")
    case None
    then show ?thesis using v by (simp add: check_cache_def Let_def)
  next
    case (Some entry)
    have "vibe_recommend w c req =
       \<lparr>response = (data entry, 200, cors),
        cache_after = clean_old_cache (clock w 0) c, calls = []\<rparr>"
      using check_cache_hit[OF v Some] by (rule vibe_recommend_check_cache)
    then show ?thesis using Some clean_old_cache_lookup[OF Some] by simp
  qed
qed

theorem sweep_before_lookup_witness:
  "(''u_sad'', \<lparr>data = Recommendations [], timestamp = 0\<rparr>) \<in> set example_cache \<and>
   clock example_world 0 - timestamp \<lparr>data = Recommendations [], timestamp = 0\<rparr> > ten_minutes \<and>
   map_of (clean_old_cache (clock example_world 0) example_cache) ''u_sad'' = None \<and>
   map_of (clean_old_cache (clock example_world 0) example_cache) ''v_chill'' =
     Some \<lparr>data = Recommendations [], timestamp = 900000000\<rparr> \<and>
   clock example_world 0 - 900000000 \<le> ten_minutes \<and>
   validate example_world example_cache example_request = Inr (JStr ''u'', ''sad'') \<and>
   cache_key example_world (JStr ''u'') ''sad'' = ''u_sad'' \<and>
   check_cache example_world example_cache example_request =
     Inr (clean_old_cache (clock example_world 0) example_cache, ''u_sad'', JStr ''u'', ''sad'')"
proof -
  have inc: "(''u_sad'', \<lparr>data = Recommendations [], timestamp = 0\<rparr>) \<in> set example_cache"
    by (simp add: example_cache_def)
  have old: "clock example_world 0 - timestamp \<lparr>data = Recommendations [], timestamp = 0\<rparr>
      > ten_minutes"
    by (simp add: example_world_def ten_minutes_def)
  have kept: "map_of (clean_old_cache (clock example_world 0) example_cache) ''v_chill'' =
     Some \<lparr>data = Recommendations [], timestamp = 900000000\<rparr>"
    by code_simp
  have v: "validate example_world example_cache example_request = Inr (JStr ''u'', ''sad'')"
    by code_simp
  have ck: "cache_key example_world (JStr ''u'') ''sad'' = ''u_sad''"
    by (simp add: cache_key_def)
  note sweep = sweep_before_lookup[of "''u_sad''" "\<lparr>data = Recommendations [], timestamp = 0\<rparr>"
      example_cache "clock example_world 0" "''v_chill''"
      "\<lparr>data = Recommendations [], timestamp = 900000000\<rparr>"
      example_world example_request "JStr ''u''" "''sad''"]
  from sweep inc old
  have gone: "map_of (clean_old_cache (clock example_world 0) example_cache) ''u_sad'' = None"
    by blast
  from sweep kept have fresh: "clock example_world 0 - 900000000 \<le> ten_minutes"
    by simp
  from sweep v have "case map_of (clean_old_cache (clock example_world 0) example_cache)
         (cache_key example_world (JStr ''u'') ''sad'') of
         Some entry \<Rightarrow>
           (cache_key example_world (JStr ''u'') ''sad'', entry) \<in> set example_cache \<and>
           clock example_world 0 - timestamp entry \<le> ten_minutes \<and>
           response (vibe_recommend example_world example_cache example_request) =
             (data entry, 200, cors)
       | None \<Rightarrow>
           check_cache example_world example_cache example_request =
             Inr (clean_old_cache (clock example_world 0) example_cache,
                  cache_key example_world (JStr ''u'') ''sad'', JStr ''u'', ''sad'')"
    by blast
  then have miss: "check_cache example_world example_cache example_request =
     Inr (clean_old_cache (clock example_world 0) example_cache, ''u_sad'', JStr ''u'', ''sad'')"
    using gone ck by simp
  show ?thesis using inc old gone kept fresh v ck miss by simp
qed

text \<open>
  C7. When the call of \<^verbatim>\<open>sp.audio_features\<close> for the candidates raises, the feature
  list is one null for each candidate, no candidate is scored, and the answer is
  status 200 with an empty list of recommendations.
\<close>

theorem candidate_features_failure:
  assumes "candidates w c req = Inr (c', cs, key, user_vec, target, tracks)"
    and "sp_audio_features w 1 (map tid tracks) = Inl e"
  shows "rec_features w tracks = replicate (length tracks) None \<and>
         with_features tracks (rec_features w tracks) = [] \<and>
         response (vibe_recommend w c req) = (Recommendations [], 200, cors)"
proof -
  have rf: "rec_features w tracks = replicate (length tracks) None"
    using assms(2) by (simp add: rec_features_def Let_def)
  have "score_loop w user_vec target (replicate (length tracks) None) 0 tracks [] = Inr []"
    by (rule score_loop_all_None) simp
  then have "score_loop w user_vec target (rec_features w tracks) 0 tracks [] = Inr []"
    using rf by simp
  then have "response (vibe_recommend w c req) = (Recommendations (top10 []), 200, cors)"
    using vibe_recommend_Inr[OF assms(1)] score_and_store_Inr by simp
  then show ?thesis
    using rf by (simp add: with_features_replicate_None top10_def sorted_reverse_def)
qed

theorem candidate_features_failure_witness:
  "candidates failing_rec_features_world example_cache example_request =
     Inr (swept_example_cache,
          [History (JStr ''u''), AudioFeatures [''t1''], GetRecommendations [''t1'']],
          ''u_sad'', [1 / 2, 1 / 2, 1 / 2], mood_target ''sad'', example_candidates) \<and>
   sp_audio_features failing_rec_features_world 1 (map tid example_candidates) =
     Inl (CollaboratorError ''rate limited'') \<and>
   rec_features failing_rec_features_world example_candidates = [None, None, None] \<and>
   response (vibe_recommend failing_rec_features_world example_cache example_request) =
     (Recommendations [], 200, cors)"
proof -
  have cand: "candidates failing_rec_features_world example_cache example_request =
     Inr (swept_example_cache,
          [History (JStr ''u''), AudioFeatures [''t1''], GetRecommendations [''t1'']],
          ''u_sad'', [1 / 2, 1 / 2, 1 / 2], mood_target ''sad'', example_candidates)"
    by code_simp
  have fails: "sp_audio_features failing_rec_features_world 1 (map tid example_candidates) =
     Inl (CollaboratorError ''rate limited'')"
    by (simp add: failing_rec_features_world_def example_world_def)
  have three: "replicate (length example_candidates) None = [None, None, None]"
    by (simp add: example_candidates_def)
  show ?thesis
    using candidate_features_failure[OF cand fails] cand fails three by simp
qed

text \<open>
  C8. When the history gives no track id and the search by mood finds nothing, and when
  there are seed tracks but every entry of their audio features is null, the answer is
  status 200 with an empty list of recommendations.
\<close>

theorem no_seeds_is_empty_success:
  "(check_cache w c req = Inr (c', key, user_id, mood) \<and>
    db_history w user_id = Inr history \<and> history_track_ids history = [] \<and>
    sp_search w mood = Inr [] \<longrightarrow>
      response (vibe_recommend w c req) = (Recommendations [], 200, cors)) \<and>
   (seed_tracks w c req = Inr (c'', cs, key', mood', track_ids) \<and> track_ids \<noteq> [] \<and>
    sp_audio_features w 0 track_ids = Inr fs \<and> (\<forall>f \<in> set fs. f = None) \<longrightarrow>
      response (vibe_recommend w c req) = (Recommendations [], 200, cors))"
proof (intro conjI impI)
  assume a: "check_cache w c req = Inr (c', key, user_id, mood) \<and>
    db_history w user_id = Inr history \<and> history_track_ids history = [] \<and>
    sp_search w mood = Inr []"
  then have "seed_tracks w c req = Inr (c', [History user_id] @ [Search mood], key, mood, [])"
    by (simp add: seed_tracks_def Let_def)
  then have "candidates w c req =
      Inl \<lparr>response = (Recommendations [], 200, cors), cache_after = c',
           calls = [History user_id] @ [Search mood]\<rparr>"
    by (simp add: candidates_def)
  then show "response (vibe_recommend w c req) = (Recommendations [], 200, cors)"
    by (simp add: vibe_recommend_def)
next
  assume b: "seed_tracks w c req = Inr (c'', cs, key', mood', track_ids) \<and> track_ids \<noteq> [] \<and>
    sp_audio_features w 0 track_ids = Inr fs \<and> (\<forall>f \<in> set fs. f = None)"
  then have "non_null fs = []" by (simp add: non_null_empty)
  with b have "candidates w c req =
      Inl \<lparr>response = (Recommendations [], 200, cors), cache_after = c'',
           calls = cs @ [AudioFeatures track_ids]\<rparr>"
    by (simp add: candidates_def Let_def)
  then show "response (vibe_recommend w c req) = (Recommendations [], 200, cors)"
    by (simp add: vibe_recommend_def)
qed

theorem no_seeds_is_empty_success_witness:
  "check_cache no_history_world example_cache example_request =
     Inr (swept_example_cache, ''u_sad'', JStr ''u'', ''sad'') \<and>
   db_history no_history_world (JStr ''u'') = Inr [] \<and> history_track_ids [] = [] \<and>
   sp_search no_history_world ''sad'' = Inr [] \<and>
   response (vibe_recommend no_history_world example_cache example_request) =
     (Recommendations [], 200, cors) \<and>
   seed_tracks null_seed_features_world example_cache example_request =
     Inr (swept_example_cache, [History (JStr ''u'')], ''u_sad'', ''sad'', [''t1'']) \<and>
   sp_audio_features null_seed_features_world 0 [''t1''] = Inr [None] \<and>
   response (vibe_recommend null_seed_features_world example_cache example_request) =
     (Recommendations [], 200, cors)"
proof -
  have a1: "check_cache no_history_world example_cache example_request =
     Inr (swept_example_cache, ''u_sad'', JStr ''u'', ''sad'')"
    by code_simp
  have a2: "db_history no_history_world (JStr ''u'') = Inr []"
    by (simp add: no_history_world_def)
  have a3: "history_track_ids [] = []"
    by (simp add: history_track_ids_def List.map_filter_simps)
  have a4: "sp_search no_history_world ''sad'' = Inr []"
    by (simp add: no_history_world_def example_world_def)
  have b1: "seed_tracks null_seed_features_world example_cache example_request =
     Inr (swept_example_cache, [History (JStr ''u'')], ''u_sad'', ''sad'', [''t1''])"
    by code_simp
  have b2: "sp_audio_features null_seed_features_world 0 [''t1''] = Inr [None]"
    by (simp add: null_seed_features_world_def)
  have ra: "response (vibe_recommend no_history_world example_cache example_request) =
     (Recommendations [], 200, cors)"
    using no_seeds_is_empty_success[of no_history_world example_cache example_request
        swept_example_cache "''u_sad''" "JStr ''u''" "''sad''" "[]"] a1 a2 a3 a4
    by simp
  have rb: "response (vibe_recommend null_seed_features_world example_cache example_request) =
     (Recommendations [], 200, cors)"
    using no_seeds_is_empty_success[of null_seed_features_world
        example_cache example_request _ _ _ _ _ swept_example_cache "[History (JStr ''u'')]"
        "''u_sad''" "''sad''" "[''t1'']" "[None]"] b1 b2
    by simp
  show ?thesis using a1 a2 a3 a4 b1 b2 ra rb by simp
qed


text \<open>
  C9. An exception of the history read is caught by no inner \<^verbatim>\<open>try\<close>: the answer is
  status 500 with the text of the exception. An exception of the search, of the seeds'
  audio features or of the recommendation fetch is answered with status 500 and a
  fixed message of its own.
\<close>

theorem history_failure_reaches_top_level:
  "(check_cache w c req = Inr (c', key, user_id, mood) \<and> db_history w user_id = Inl e \<longrightarrow>
      response (vibe_recommend w c req) = (Error (str_exn e), 500, cors)) \<and>
   (check_cache w c req = Inr (c', key, user_id, mood) \<and>
    db_history w user_id = Inr history \<and> history_track_ids history = [] \<and>
    sp_search w mood = Inl e \<longrightarrow>
      response (vibe_recommend w c req) = (Error ''Failed to search tracks'', 500, cors)) \<and>
   (seed_tracks w c req = Inr (c'', cs, key', mood', track_ids) \<and> track_ids \<noteq> [] \<and>
    sp_audio_features w 0 track_ids = Inl e \<longrightarrow>
      response (vibe_recommend w c req) = (Error ''Failed to get audio features'', 500, cors)) \<and>
   (seed_tracks w c req = Inr (c'', cs, key', mood', track_ids) \<and> track_ids \<noteq> [] \<and>
    sp_audio_features w 0 track_ids = Inr fs \<and> non_null fs \<noteq> [] \<and>
    sp_recommendations w (take 5 track_ids) = Inl e \<longrightarrow>
      response (vibe_recommend w c req) =
        (Error ''Failed to get recommendations'', 500, cors))"
proof (intro conjI impI)
  assume "check_cache w c req = Inr (c', key, user_id, mood) \<and> db_history w user_id = Inl e"
  then have "seed_tracks w c req = Inl (unexpected e c' [History user_id])"
    by (simp add: seed_tracks_def Let_def)
  then have "vibe_recommend w c req = unexpected e c' [History user_id]"
    by (intro vibe_recommend_Inl candidates_Inl)
  then show "response (vibe_recommend w c req) = (Error (str_exn e), 500, cors)"
    by (simp add: unexpected_def)
next
  assume "check_cache w c req = Inr (c', key, user_id, mood) \<and>
    db_history w user_id = Inr history \<and> history_track_ids history = [] \<and>
    sp_search w mood = Inl e"
  then have "seed_tracks w c req =
      Inl \<lparr>response = (Error ''Failed to search tracks'', 500, cors), cache_after = c',
           calls = [History user_id] @ [Search mood]\<rparr>"
    by (simp add: seed_tracks_def Let_def)
  then have "vibe_recommend w c req =
      \<lparr>response = (Error ''Failed to search tracks'', 500, cors), cache_after = c',
       calls = [History user_id] @ [Search mood]\<rparr>"
    by (intro vibe_recommend_Inl candidates_Inl)
  then show "response (vibe_recommend w c req) = (Error ''Failed to search tracks'', 500, cors)"
    by simp
next
  assume "seed_tracks w c req = Inr (c'', cs, key', mood', track_ids) \<and> track_ids \<noteq> [] \<and>
    sp_audio_features w 0 track_ids = Inl e"
  then have "candidates w c req =
      Inl \<lparr>response = (Error ''Failed to get audio features'', 500, cors), cache_after = c'',
           calls = cs @ [AudioFeatures track_ids]\<rparr>"
    by (simp add: candidates_def Let_def)
  then show "response (vibe_recommend w c req) =
      (Error ''Failed to get audio features'', 500, cors)"
    by (simp add: vibe_recommend_def)
next
  assume "seed_tracks w c req = Inr (c'', cs, key', mood', track_ids) \<and> track_ids \<noteq> [] \<and>
    sp_audio_features w 0 track_ids = Inr fs \<and> non_null fs \<noteq> [] \<and>
    sp_recommendations w (take 5 track_ids) = Inl e"
  then have "candidates w c req =
      Inl \<lparr>response = (Error ''Failed to get recommendations'', 500, cors),
           cache_after = c'',
           calls = (cs @ [AudioFeatures track_ids]) @
                   [GetRecommendations (take 5 track_ids)]\<rparr>"
    by (simp add: candidates_def Let_def)
  then show "response (vibe_recommend w c req) =
      (Error ''Failed to get recommendations'', 500, cors)"
    by (simp add: vibe_recommend_def)
qed

theorem history_failure_reaches_top_level_witness:
  "check_cache failing_history_world example_cache example_request =
     Inr (swept_example_cache, ''u_sad'', JStr ''u'', ''sad'') \<and>
   db_history failing_history_world (JStr ''u'') =
     Inl (CollaboratorError ''deadline exceeded'') \<and>
   response (vibe_recommend failing_history_world example_cache example_request) =
     (Error ''deadline exceeded'', 500, cors) \<and>
   check_cache failing_search_world example_cache example_request =
     Inr (swept_example_cache, ''u_sad'', JStr ''u'', ''sad'') \<and>
   db_history failing_search_world (JStr ''u'') = Inr [] \<and>
   sp_search failing_search_world ''sad'' = Inl (CollaboratorError ''rate limited'') \<and>
   response (vibe_recommend failing_search_world example_cache example_request) =
     (Error ''Failed to search tracks'', 500, cors) \<and>
   seed_tracks failing_seed_features_world example_cache example_request =
     Inr (swept_example_cache, [History (JStr ''u'')], ''u_sad'', ''sad'', [''t1'']) \<and>
   sp_audio_features failing_seed_features_world 0 [''t1''] =
     Inl (CollaboratorError ''rate limited'') \<and>
   response (vibe_recommend failing_seed_features_world example_cache example_request) =
     (Error ''Failed to get audio features'', 500, cors) \<and>
   seed_tracks failing_recommendations_world example_cache example_request =
     Inr (swept_example_cache, [History (JStr ''u'')], ''u_sad'', ''sad'', [''t1'']) \<and>
   sp_audio_features failing_recommendations_world 0 [''t1''] = Inr [Some (flat 0.5)] \<and>
   sp_recommendations failing_recommendations_world (take 5 [''t1'']) =
     Inl (CollaboratorError ''rate limited'') \<and>
   response (vibe_recommend failing_recommendations_world example_cache example_request) =
     (Error ''Failed to get recommendations'', 500, cors)"
proof -
  have a1: "check_cache failing_history_world example_cache example_request =
     Inr (swept_example_cache, ''u_sad'', JStr ''u'', ''sad'')"
    by code_simp
  have a2: "db_history failing_history_world (JStr ''u'') =
     Inl (CollaboratorError ''deadline exceeded'')"
    by (simp add: failing_history_world_def)
  have b1: "check_cache failing_search_world example_cache example_request =
     Inr (swept_example_cache, ''u_sad'', JStr ''u'', ''sad'')"
    by code_simp
  have b2: "db_history failing_search_world (JStr ''u'') = Inr []"
    by (simp add: failing_search_world_def no_history_world_def)
  have b3: "history_track_ids [] = []"
    by (simp add: history_track_ids_def List.map_filter_simps)
  have b4: "sp_search failing_search_world ''sad'' = Inl (CollaboratorError ''rate limited'')"
    by (simp add: failing_search_world_def)
  have c1: "seed_tracks failing_seed_features_world example_cache example_request =
     Inr (swept_example_cache, [History (JStr ''u'')], ''u_sad'', ''sad'', [''t1''])"
    by code_simp
  have c2: "sp_audio_features failing_seed_features_world 0 [''t1''] =
     Inl (CollaboratorError ''rate limited'')"
    by (simp add: failing_seed_features_world_def)
  have d1: "seed_tracks failing_recommendations_world example_cache example_request =
     Inr (swept_example_cache, [History (JStr ''u'')], ''u_sad'', ''sad'', [''t1''])"
    by code_simp
  have d2: "sp_audio_features failing_recommendations_world 0 [''t1''] = Inr [Some (flat 0.5)]"
    by (simp add: failing_recommendations_world_def example_world_def)
  have d3: "non_null [Some (flat 0.5)] \<noteq> []"
    by (simp add: non_null_def List.map_filter_simps)
  have d4: "sp_recommendations failing_recommendations_world (take 5 [''t1'']) =
     Inl (CollaboratorError ''rate limited'')"
    by (simp add: failing_recommendations_world_def)
  have ra: "response (vibe_recommend failing_history_world example_cache example_request) =
     (Error ''deadline exceeded'', 500, cors)"
    using history_failure_reaches_top_level[of failing_history_world example_cache
        example_request swept_example_cache "''u_sad''" "JStr ''u''" "''sad''"
        "CollaboratorError ''deadline exceeded''"] a1 a2
    by simp
  have rb: "response (vibe_recommend failing_search_world example_cache example_request) =
     (Error ''Failed to search tracks'', 500, cors)"
    using history_failure_reaches_top_level[of failing_search_world example_cache
        example_request swept_example_cache "''u_sad''" "JStr ''u''" "''sad''"
        "CollaboratorError ''rate limited''" "[]"] b1 b2 b3 b4
    by simp
  have rc: "response (vibe_recommend failing_seed_features_world example_cache
        example_request) = (Error ''Failed to get audio features'', 500, cors)"
    using history_failure_reaches_top_level[of failing_seed_features_world example_cache
        example_request _ _ _ _ "CollaboratorError ''rate limited''" _ swept_example_cache
        "[History (JStr ''u'')]" "''u_sad''" "''sad''" "[''t1'']"] c1 c2
    by simp
  have rd: "response (vibe_recommend failing_recommendations_world example_cache
        example_request) = (Error ''Failed to get recommendations'', 500, cors)"
    using history_failure_reaches_top_level[of failing_recommendations_world example_cache
        example_request _ _ _ _ "CollaboratorError ''rate limited''" _ swept_example_cache
        "[History (JStr ''u'')]" "''u_sad''" "''sad''" "[''t1'']" "[Some (flat 0.5)]"]
      d1 d2 d3 d4
    by simp
  show ?thesis using a1 a2 b1 b2 b4 c1 c2 d1 d2 d4 ra rb rc rd by simp
qed

text \<open>
  C10. Every answer given before the scoring loop leaves the cache as it was or as the
  sweep left it (as it was, when the answer is given before the sweep). A request
  that reaches the scoring loop works on the swept cache; when the loop ends without an
  exception the answer is stored under the request's key with the second reading of
  the clock, and when it raises nothing is stored.
\<close>

theorem cache_written_only_after_scoring:
  "(case candidates w c req of
      Inl out \<Rightarrow>
        vibe_recommend w c req = out \<and>
        (cache_after out = c \<or> cache_after out = clean_old_cache (clock w 0) c)
    | Inr (c', cs, key, user_vec, target, tracks) \<Rightarrow>
        c' = clean_old_cache (clock w 0) c \<and>
        (\<exists>user_id mood. validate w c req = Inr (user_id, mood) \<and>
           key = cache_key w user_id mood) \<and>
        (case score_loop w user_vec target (rec_features w tracks) 0 tracks [] of
           Inl e \<Rightarrow> cache_after (vibe_recommend w c req) = c'
         | Inr scored \<Rightarrow>
             cache_after (vibe_recommend w c req) =
               AList.update key
                 \<lparr>data = Recommendations (top10 scored), timestamp = clock w 1\<rparr> c')) \<and>
   (validate w c req = Inl out' \<longrightarrow> cache_after (vibe_recommend w c req) = c)"
proof (intro conjI impI)
  show "case candidates w c req of
      Inl out \<Rightarrow>
        vibe_recommend w c req = out \<and>
        (cache_after out = c \<or> cache_after out = clean_old_cache (clock w 0) c)
    | Inr (c', cs, key, user_vec, target, tracks) \<Rightarrow>
        c' = clean_old_cache (clock w 0) c \<and>
        (\<exists>user_id mood. validate w c req = Inr (user_id, mood) \<and>
           key = cache_key w user_id mood) \<and>
        (case score_loop w user_vec target (rec_features w tracks) 0 tracks [] of
           Inl e \<Rightarrow> cache_after (vibe_recommend w c req) = c'
         | Inr scored \<Rightarrow>
             cache_after (vibe_recommend w c req) =
               AList.update key
                 \<lparr>data = Recommendations (top10 scored), timestamp = clock w 1\<rparr> c')"
  proof (cases "candidates w c req")
    case (Inl out)
    then show ?thesis
      using vibe_recommend_Inl[OF Inl] candidates_Inl_frame[OF Inl] by simp
  next
    case (Inr x)
    obtain c' cs key user_vec target tracks
      where x: "x = (c', cs, key, user_vec, target, tracks)"
      by (cases x) auto
    have cand: "candidates w c req = Inr (c', cs, key, user_vec, target, tracks)"
      using Inr x by simp
    have swept: "c' = clean_old_cache (clock w 0) c"
      using cand by (rule candidates_Inr_frame)
    from candidates_Inr[OF cand] obtain cs0 m track_ids where
      "seed_tracks w c req = Inr (c', cs0, key, m, track_ids)" by blast
    from seed_tracks_Inr[OF this] obtain user_id where
      "check_cache w c req = Inr (c', key, user_id, m)" by blast
    from check_cache_Inr[OF this]
    have keyed: "\<exists>user_id mood. validate w c req = Inr (user_id, mood) \<and>
           key = cache_key w user_id mood"
      by blast
    have stored: "case score_loop w user_vec target (rec_features w tracks) 0 tracks [] of
           Inl e \<Rightarrow> cache_after (vibe_recommend w c req) = c'
         | Inr scored \<Rightarrow>
             cache_after (vibe_recommend w c req) =
               AList.update key
                 \<lparr>data = Recommendations (top10 scored), timestamp = clock w 1\<rparr> c'"
    proof (cases "score_loop w user_vec target (rec_features w tracks) 0 tracks []")
      case (Inl e)
      then show ?thesis
        using vibe_recommend_Inr[OF cand] score_and_store_Inl[OF Inl]
        by (simp add: unexpected_def)
    next
      case (Inr scored)
      then show ?thesis
        using vibe_recommend_Inr[OF cand] score_and_store_Inr[OF Inr] by simp
    qed
    show ?thesis using cand swept keyed stored by (auto split: sum.splits)
  qed
next
  assume "validate w c req = Inl out'"
  then have "vibe_recommend w c req = out'" "cache_after out' = c"
    using vibe_recommend_check_cache check_cache_Inl_validate validate_Inl by blast+
  then show "cache_after (vibe_recommend w c req) = c" by simp
qed

theorem cache_written_only_after_scoring_witness:
  "candidates example_world example_cache example_request =
     Inr (swept_example_cache,
          [History (JStr ''u''), AudioFeatures [''t1''], GetRecommendations [''t1'']],
          ''u_sad'', [1 / 2, 1 / 2, 1 / 2], mood_target ''sad'', example_candidates) \<and>
   score_loop example_world [1 / 2, 1 / 2, 1 / 2] (mood_target ''sad'')
     (rec_features example_world example_candidates) 0 example_candidates [] =
     Inr example_scored \<and>
   swept_example_cache = clean_old_cache (clock example_world 0) example_cache \<and>
   cache_after (vibe_recommend example_world example_cache example_request) =
     AList.update ''u_sad''
       \<lparr>data = Recommendations (top10 example_scored), timestamp = clock example_world 1\<rparr>
       swept_example_cache \<and>
   validate example_world example_cache options_request =
     Inl \<lparr>response = (NoContent, 204, preflight), cache_after = example_cache, calls = []\<rparr> \<and>
   cache_after (vibe_recommend example_world example_cache options_request) = example_cache \<and>
   candidates failing_history_world example_cache example_request =
     Inl (unexpected (CollaboratorError ''deadline exceeded'') swept_example_cache
            [History (JStr ''u'')]) \<and>
   cache_after (vibe_recommend failing_history_world example_cache example_request) =
     swept_example_cache"
proof -
  have opt: "validate example_world example_cache options_request =
     Inl \<lparr>response = (NoContent, 204, preflight), cache_after = example_cache, calls = []\<rparr>"
    by (simp add: validate_def options_request_def)
  have hist: "candidates failing_history_world example_cache example_request =
     Inl (unexpected (CollaboratorError ''deadline exceeded'') swept_example_cache
            [History (JStr ''u'')])"
    by code_simp
  have r1: "swept_example_cache = clean_old_cache (clock example_world 0) example_cache \<and>
     cache_after (vibe_recommend example_world example_cache example_request) =
     AList.update ''u_sad''
       \<lparr>data = Recommendations (top10 example_scored), timestamp = clock example_world 1\<rparr>
       swept_example_cache"
    using cache_written_only_after_scoring[of example_world example_cache example_request]
      example_run example_loop
    by simp
  have r2: "cache_after (vibe_recommend example_world example_cache options_request) =
      example_cache"
    using cache_written_only_after_scoring[of example_world example_cache options_request] opt
    by simp
  have r3: "cache_after (vibe_recommend failing_history_world example_cache example_request) =
     swept_example_cache"
    using cache_written_only_after_scoring[of failing_history_world example_cache
        example_request] hist
    by (simp add: unexpected_def)
  show ?thesis using example_run example_loop opt hist r1 r2 r3 by simp
qed

end
